theory Spec2Isabelle
  imports Main "HOL-Library.AList"
begin

section \<open>Strings and the regular expressions of \<^verbatim>\<open>kalite_gtk/cli.py\<close>\<close>

text \<open>
  Text is a \<^typ>\<open>string\<close>. The module uses three fixed regular expressions and a handful
  of \<^verbatim>\<open>str\<close> methods; each is written out as the function it computes.

  A \<^typ>\<open>char\<close> stands for the code point of the same number, so the texts of the
  model are the texts over the code points below 256.

  Whitespace is what \<^verbatim>\<open>str.split()\<close>, \<^verbatim>\<open>str.strip()\<close> and the class \<^verbatim>\<open>\s\<close> of a
  pattern on text agree on: among the code points below 256 these are tab, line feed,
  vertical tab, form feed, carriage return, the four separators 0x1C to 0x1F, the
  space, the next-line control 0x85 and the no-break space 0xA0. The decimal digits of
  \<^verbatim>\<open>\d\<close> below 256 are the ten ASCII digits.
\<close>

definition isspace :: "char \<Rightarrow> bool" where
  "isspace c \<longleftrightarrow> c \<in> set [CHR 0x09, CHR 0x0A, CHR 0x0B, CHR 0x0C, CHR 0x0D,
                         CHR 0x1C, CHR 0x1D, CHR 0x1E, CHR 0x1F, CHR '' '',
                         CHR 0x85, CHR 0xA0]"

definition isdigit :: "char \<Rightarrow> bool" where
  "isdigit c \<longleftrightarrow> c \<in> set ''0123456789''"

text \<open>\<^verbatim>\<open>s.split()\<close>: the maximal runs of non-whitespace, in order; never an empty token.\<close>

fun split_ws_acc :: "string \<Rightarrow> string \<Rightarrow> string list" where
  "split_ws_acc cur [] = (if cur = [] then [] else [cur])"
| "split_ws_acc cur (c # cs) =
     (if isspace c then (if cur = [] then split_ws_acc [] cs else cur # split_ws_acc [] cs)
      else split_ws_acc (cur @ [c]) cs)"

definition split_ws :: "string \<Rightarrow> string list" where
  "split_ws s = split_ws_acc [] s"

text \<open>\<^verbatim>\<open>s.split(sep)\<close> for a one-character separator: empty pieces are kept, and the
  result is never empty.\<close>

fun split_on_acc :: "char \<Rightarrow> string \<Rightarrow> string \<Rightarrow> string list" where
  "split_on_acc sep cur [] = [cur]"
| "split_on_acc sep cur (c # cs) =
     (if c = sep then cur # split_on_acc sep [] cs else split_on_acc sep (cur @ [c]) cs)"

definition split_on :: "char \<Rightarrow> string \<Rightarrow> string list" where
  "split_on sep s = split_on_acc sep [] s"

text \<open>\<^verbatim>\<open>s.strip()\<close> and \<^verbatim>\<open>sub in s\<close>.\<close>

definition strip :: "string \<Rightarrow> string" where
  "strip s = rev (dropWhile isspace (rev (dropWhile isspace s)))"

fun contains :: "string \<Rightarrow> string \<Rightarrow> bool" where
  "contains sub [] = (sub = [])"
| "contains sub (c # cs) = (take (length sub) (c # cs) = sub \<or> contains sub cs)"

text \<open>
  \<^verbatim>\<open>re.compile(r'(http://[^\s]+)').search(line)\<close>: the leftmost position where
  \<^verbatim>\<open>http://\<close> is followed by at least one non-whitespace character; the match runs to
  the end of that run of non-whitespace (\<^verbatim>\<open>+\<close> is greedy). The result is
  \<^verbatim>\<open>match.group(0)\<close>, or \<^const>\<open>None\<close> when there is no match.
\<close>

fun search_url :: "string \<Rightarrow> string option" where
  "search_url [] = None"
| "search_url (c # cs) =
     (let rest = takeWhile (\<lambda>x. \<not> isspace x) (drop 7 (c # cs))
      in if take 7 (c # cs) = ''http://'' \<and> rest \<noteq> [] then Some (''http://'' @ rest)
         else search_url cs)"

text \<open>
  \<^verbatim>\<open>re.compile(r'--port=(?P<port>\d+)').search(text)\<close>: the leftmost position where
  \<^verbatim>\<open>--port=\<close> is followed by at least one digit; the group \<^verbatim>\<open>port\<close> is the whole run
  of digits that follows.
\<close>

fun search_port :: "string \<Rightarrow> string option" where
  "search_port [] = None"
| "search_port (c # cs) =
     (let ds = takeWhile isdigit (drop 7 (c # cs))
      in if take 7 (c # cs) = ''--port='' \<and> ds \<noteq> [] then Some ds else search_port cs)"

text \<open>
  \<^verbatim>\<open>re.sub(r'--port=\d+', repl, text)\<close>: every non-overlapping match, scanning from the
  left, is replaced by \<open>repl\<close>; the scan resumes behind the match. (The replacement
  strings of this module hold no backslash, so \<open>repl\<close> is inserted as it is.)
\<close>

function sub_port :: "string \<Rightarrow> string \<Rightarrow> string" where
  "sub_port repl [] = []"
| "sub_port repl (c # cs) =
     (let ds = takeWhile isdigit (drop 7 (c # cs))
      in if take 7 (c # cs) = ''--port='' \<and> ds \<noteq> []
         then repl @ sub_port repl (drop (7 + length ds) (c # cs))
         else c # sub_port repl cs)"
  by pat_completeness auto
termination
  by (relation "measure (\<lambda>(repl, s). length s)") auto

text \<open>\<^verbatim>\<open>sep.join(parts)\<close>.\<close>

fun join :: "string \<Rightarrow> string list \<Rightarrow> string" where
  "join sep [] = []"
| "join sep [x] = x"
| "join sep (x # y # ys) = x @ sep @ join sep (y # ys)"

text \<open>Decimal numerals: \<^verbatim>\<open>'{}'.format(n)\<close> for an integer, and \<^verbatim>\<open>int(digits)\<close>.\<close>

definition digit_char :: "nat \<Rightarrow> char" where
  "digit_char d = ''0123456789'' ! d"

fun str_nat :: "nat \<Rightarrow> string" where
  "str_nat n = (if n < 10 then [digit_char n] else str_nat (n div 10) @ [digit_char (n mod 10)])"

declare str_nat.simps [simp del]

definition str_int :: "int \<Rightarrow> string" where
  "str_int i = (if i < 0 then CHR ''-'' # str_nat (nat (- i)) else str_nat (nat i))"

definition digit_value :: "char \<Rightarrow> int" where
  "digit_value c = int (of_char c) - 48"

definition int_of_digits :: "string \<Rightarrow> int" where
  "int_of_digits ds = foldl (\<lambda>a c. 10 * a + digit_value c) 0 ds"

text \<open>
  \<^verbatim>\<open>os.path.join(a, b)\<close> on POSIX for two components: an absolute \<open>b\<close> replaces \<open>a\<close>;
  otherwise the two are put together with exactly one separator between them.
\<close>

definition path_join :: "string \<Rightarrow> string \<Rightarrow> string" where
  "path_join a b =
     (if take 1 b = ''/'' then b
      else if a = [] \<or> last a = CHR ''/'' then a @ b
      else a @ ''/'' @ b)"

section \<open>Status text mining\<close>

text \<open>
  \<^verbatim>\<open>
  def get_urls_from_status(msg, return_code):
      if return_code != 0:
          return
      url_match = re.compile(r'(http://[^\s]+)')
      for line in msg.split():
          match = url_match.search(line)
          if match:
              yield match.group(0)
  \<close>
  The generator is finite; its model is the list of the values it yields.
\<close>

definition get_urls_from_status :: "string \<Rightarrow> int \<Rightarrow> string list" where
  "get_urls_from_status msg return_code =
     (if return_code \<noteq> 0 then []
      else concat (map (\<lambda>line. case search_url line of Some m \<Rightarrow> [m] | None \<Rightarrow> [])
                       (split_ws msg)))"

section \<open>Values, errors and the world outside the module\<close>

text \<open>
  What \<^verbatim>\<open>json.load\<close> can return (numbers with a fraction or an exponent are left out), and
  so what a value of the \<^verbatim>\<open>settings\<close> dictionary can be. A dictionary is the list of its
  items in insertion order.
\<close>

datatype json =
    JNull
  | JBool bool
  | JInt int
  | JStr string
  | JList "json list"
  | JDict "(string \<times> json) list"

text \<open>
  The exceptions that can leave a function of the module. Where Python 2 and Python 3
  raise different exceptions for the same mistake (\<^verbatim>\<open>os.path.join\<close> on a value that is
  not a string), the model follows Python 3.
\<close>

datatype error =
  KeyError | TypeError | AttributeError | IndexError | IOError | OSError | UnicodeEncodeError

text \<open>
  One constructor for each message the module hands to its logger: the three
  \<^verbatim>\<open>logger.error\<close> calls of configuration loading, the \<^verbatim>\<open>logger.debug\<close> calls of the two
  executors, and the three outcomes of saving the system files. (The \<^verbatim>\<open>print\<close> calls
  are not logging and are left out.)
\<close>

datatype log_entry =
    NonExistingUsername
  | IllegalValue string
  | ParsingError
  | RunningCommand "json list" json
  | StreamingCommand "json list" json
  | NotSavingDebian string
  | WroteDebianConfig
  | ErrorWritingDebian string

text \<open>
  The user settings file \<^verbatim>\<open>~/.kalite/ka-lite-gtk.json\<close>: absent, or present with a text
  that \<^verbatim>\<open>json.load\<close> rejects (\<^verbatim>\<open>ValueError\<close>), or present with the value
  \<^verbatim>\<open>json.load\<close> returns. Writing with \<^verbatim>\<open>json.dump\<close> and reading back with
  \<^verbatim>\<open>json.load\<close> is the identity on \<^typ>\<open>json\<close>.
\<close>

datatype settings_file = NoFile | Unparsable | Parsed json

text \<open>A child process: what it writes to its two pipes and its exit code.\<close>

record process =
  proc_stdout :: string
  proc_stderr :: string
  proc_exit :: int

text \<open>
  Everything the module reads from outside itself.
  \<^item> \<open>getuser\<close> is \<^verbatim>\<open>getpass.getuser()\<close>; \<open>getpwnam\<close> gives \<^verbatim>\<open>pwd.getpwnam(u).pw_dir\<close>, or
    \<^const>\<open>None\<close> where \<^verbatim>\<open>pwd.getpwnam\<close> raises \<^verbatim>\<open>KeyError\<close>; \<open>find_executable\<close> is
    \<^verbatim>\<open>distutils.spawn.find_executable\<close>.
  \<^item> \<open>username_file\<close> and \<open>options_file\<close> are the contents of
    \<^verbatim>\<open>/etc/ka-lite/username\<close> and \<^verbatim>\<open>/etc/ka-lite/server_options\<close>, \<^const>\<open>None\<close> when
    \<^verbatim>\<open>os.path.isfile\<close> is false.
  \<^item> \<open>user_settings_file\<close> is the user settings file as it is found;
    \<open>settings_file_writable\<close> says whether \<^verbatim>\<open>open(KALITE_GTK_SETTINGS_FILE, 'w')\<close>
    succeeds. It raises \<^verbatim>\<open>IOError\<close> when the file cannot be created, as when the
    directory \<^verbatim>\<open>~/.kalite\<close> does not exist: the module never creates it.
  \<^item> \<open>validate_user\<close>, \<open>validate_port\<close> and \<open>validate_command\<close> are the three callbacks
    of the table \<^verbatim>\<open>validate\<close>. They are defined in \<^verbatim>\<open>kalite_gtk/validators.py\<close>, outside
    the module verified here, so they are parameters. The comment on the table says
    that a callback raises \<^verbatim>\<open>ValidationError\<close> (here \<^const>\<open>None\<close>); otherwise it
    returns the normalised field, of the type the data model gives the field: a string
    for \<^verbatim>\<open>user\<close> and \<^verbatim>\<open>command\<close>, an integer for \<^verbatim>\<open>port\<close>.
  \<^item> \<open>spawn argv shell kalite_home\<close> is the child the operating system starts for an
    argument vector, the \<^verbatim>\<open>shell\<close> flag and the value of \<^verbatim>\<open>KALITE_HOME\<close>;
    \<^const>\<open>None\<close> when the program cannot be executed (\<^verbatim>\<open>OSError\<close>).
  \<^item> \<open>py_repr\<close> is how \<^verbatim>\<open>str.format\<close> renders a list or a dictionary; it is left
    abstract.
\<close>

record environment =
  getuser :: string
  getpwnam :: "string \<Rightarrow> string option"
  find_executable :: "string \<Rightarrow> string option"
  username_file :: "string option"
  options_file :: "string option"
  user_settings_file :: settings_file
  settings_file_writable :: bool
  validate_user :: "json \<Rightarrow> string option"
  validate_port :: "json \<Rightarrow> int option"
  validate_command :: "json \<Rightarrow> string option"
  spawn :: "string list \<Rightarrow> bool \<Rightarrow> string \<Rightarrow> process option"
  py_repr :: "json \<Rightarrow> string"

text \<open>
  The dictionary \<^verbatim>\<open>settings\<close>. Its five keys are always present (the module never
  deletes from it). \<^verbatim>\<open>user\<close>, \<^verbatim>\<open>port\<close> and \<^verbatim>\<open>command\<close> are only ever assigned a
  compiled default or a validator's result, so they carry the validators' types;
  \<^verbatim>\<open>command\<close> is \<^const>\<open>None\<close> when \<^verbatim>\<open>find_executable('kalite')\<close> found nothing.
  \<^verbatim>\<open>home\<close> and \<^verbatim>\<open>content_root\<close> have no validator and take whatever the settings file
  holds. Every other key of the settings file is kept in \<open>extra\<close>.
\<close>

record settings =
  user :: string
  command :: "string option"
  content_root :: json
  port :: int
  home :: json
  extra :: "(string \<times> json) list"

text \<open>
  The module's globals once its top-level code has run. \<^verbatim>\<open>SU_COMMAND\<close> and
  \<^verbatim>\<open>SUDO_COMMAND\<close> are assigned together, one of two pairs of constants, so the state
  holds which pair it is.
\<close>

datatype escalation = Pkexec | Gksudo

record module_state =
  DEFAULT_USER :: string
  DEFAULT_PORT :: int
  DEFAULT_HOME :: string
  escalation :: escalation
  debian_username :: "string option"
  settings :: settings

section \<open>Configuration resolution: the module's top-level code\<close>

text \<open>
  \<^verbatim>\<open>
  if find_executable('pkexec'):
      SU_COMMAND = 'pkexec --user {username}'
      SUDO_COMMAND = 'pkexec'
  else:
      SU_COMMAND = 'gksudo -u {username}'
      SUDO_COMMAND = 'gksudo'
  \<close>
\<close>

definition select_escalation :: "environment \<Rightarrow> escalation" where
  "select_escalation env =
     (case find_executable env ''pkexec'' of
        Some p \<Rightarrow> if p \<noteq> [] then Pkexec else Gksudo
      | None \<Rightarrow> Gksudo)"

definition SU_COMMAND :: "module_state \<Rightarrow> string" where
  "SU_COMMAND m = (case escalation m of Pkexec \<Rightarrow> ''pkexec --user {username}''
                                       | Gksudo \<Rightarrow> ''gksudo -u {username}'')"

definition SUDO_COMMAND :: "module_state \<Rightarrow> string" where
  "SUDO_COMMAND m = (case escalation m of Pkexec \<Rightarrow> ''pkexec'' | Gksudo \<Rightarrow> ''gksudo'')"

text \<open>
  Lines 51 to 70. The result is \<^verbatim>\<open>debian_username\<close>, \<^verbatim>\<open>DEFAULT_USER\<close> and
  \<^verbatim>\<open>DEFAULT_PORT\<close> as they stand at line 71, with what was logged.
  \<^verbatim>\<open>
  debian_username = None
  if os.path.isfile(DEBIAN_USERNAME_FILE):
      debian_username = open(DEBIAN_USERNAME_FILE, 'r').read()
      debian_username = debian_username.split('\n')[0]
      if debian_username:
          try:
              debian_username = validate['user'](debian_username)
              DEFAULT_USER = debian_username
              if os.path.isfile(DEBIAN_OPTIONS_FILE):
                  current_server_options = open(DEBIAN_OPTIONS_FILE, 'r').read()
                  match_port = re.compile(r'--port=(?P<port>\d+)').search(current_server_options)
                  if match_port:
                      DEFAULT_PORT = int(match_port.group('port'))
          except ValidationError:
              logger.error('Non-existing username in {}'.format(DEBIAN_USERNAME_FILE))
  \<close>
  When the validator raises, \<^verbatim>\<open>debian_username\<close> keeps the unvalidated first line.
\<close>

definition debian_defaults :: "environment \<Rightarrow> (string option \<times> string \<times> int) \<times> log_entry list" where
  "debian_defaults env =
     (case username_file env of
        None \<Rightarrow> ((None, getuser env, 8008), [])
      | Some content \<Rightarrow>
          (let name = hd (split_on (CHR 0x0A) content)
           in if name = [] then ((Some name, getuser env, 8008), [])
              else (case validate_user env (JStr name) of
                      None \<Rightarrow> ((Some name, getuser env, 8008), [NonExistingUsername])
                    | Some u \<Rightarrow>
                        ((Some u, u,
                          (case options_file env of
                             None \<Rightarrow> 8008
                           | Some current_server_options \<Rightarrow>
                               (case search_port current_server_options of
                                  None \<Rightarrow> 8008
                                | Some ds \<Rightarrow> int_of_digits ds))), []))))"

text \<open>
  \<^verbatim>\<open>
  def get_kalite_home(user):
      return os.path.join(pwd.getpwnam(user).pw_dir, '.kalite')
  \<close>
\<close>

definition get_kalite_home :: "environment \<Rightarrow> string \<Rightarrow> error + string" where
  "get_kalite_home env u =
     (case getpwnam env u of
        None \<Rightarrow> Inl KeyError
      | Some pw_dir \<Rightarrow> Inr (path_join pw_dir ''.kalite''))"

text \<open>The truth value of \<^verbatim>\<open>debian_username\<close> in \<^verbatim>\<open>if debian_username:\<close>.\<close>

definition truthy :: "string option \<Rightarrow> bool" where
  "truthy x = (case x of None \<Rightarrow> False | Some s \<Rightarrow> s \<noteq> [])"

text \<open>
  \<^verbatim>\<open>del loaded_settings['user']\<close>: \<^verbatim>\<open>KeyError\<close> when the dictionary has no such key,
  \<^verbatim>\<open>TypeError\<close> when the loaded value is not a dictionary.
\<close>

definition del_key :: "string \<Rightarrow> json \<Rightarrow> error + json" where
  "del_key k loaded =
     (case loaded of
        JDict kvs \<Rightarrow> if k \<in> set (map fst kvs) then Inr (JDict (AList.delete k kvs))
                     else Inl KeyError
      | _ \<Rightarrow> Inl TypeError)"

text \<open>
  \<^verbatim>\<open>settings[k] = validate[k](v) if k in validate else v\<close>, with \<^const>\<open>None\<close> for
  \<^verbatim>\<open>ValidationError\<close>; the table \<^verbatim>\<open>validate\<close> has the keys \<^verbatim>\<open>user\<close>, \<^verbatim>\<open>port\<close> and
  \<^verbatim>\<open>command\<close>.
\<close>

definition set_field :: "environment \<Rightarrow> string \<Rightarrow> json \<Rightarrow> settings \<Rightarrow> settings option" where
  "set_field env k v s =
     (if k = ''user'' then map_option (\<lambda>u. s\<lparr>user := u\<rparr>) (validate_user env v)
      else if k = ''port'' then map_option (\<lambda>p. s\<lparr>port := p\<rparr>) (validate_port env v)
      else if k = ''command'' then map_option (\<lambda>c. s\<lparr>command := Some c\<rparr>) (validate_command env v)
      else if k = ''home'' then Some (s\<lparr>home := v\<rparr>)
      else if k = ''content_root'' then Some (s\<lparr>content_root := v\<rparr>)
      else Some (s\<lparr>extra := AList.update k v (extra s)\<rparr>))"

text \<open>
  \<^verbatim>\<open>
  for (k, v) in loaded_settings.items():
      try:
          settings[k] = validate[k](v) if k in validate else v
      except ValidationError:
          logger.error("Illegal value in {} for {}".format(KALITE_GTK_SETTINGS_FILE, k))
  \<close>
\<close>

fun load_fields ::
  "environment \<Rightarrow> (string \<times> json) list \<Rightarrow> settings \<Rightarrow> log_entry list \<Rightarrow> settings \<times> log_entry list"
where
  "load_fields env [] s lg = (s, lg)"
| "load_fields env ((k, v) # kvs) s lg =
     (case set_field env k v s of
        Some s' \<Rightarrow> load_fields env kvs s' lg
      | None \<Rightarrow> load_fields env kvs s (lg @ [IllegalValue k]))"

text \<open>
  \<^verbatim>\<open>
  if 'home' not in loaded_settings:
      settings['home'] = get_kalite_home(settings['user'])
  if 'content_root' not in loaded_settings:
      settings['content_root'] = os.path.join(settings['home'], 'content')
  \<close>
  \<^verbatim>\<open>os.path.join\<close> raises \<^verbatim>\<open>TypeError\<close> on a \<^verbatim>\<open>home\<close> that is not a string.
\<close>

definition update_home :: "environment \<Rightarrow> (string \<times> json) list \<Rightarrow> settings \<Rightarrow> error + settings" where
  "update_home env kvs s =
     (if ''home'' \<in> set (map fst kvs) then Inr s
      else (case get_kalite_home env (user s) of
              Inl e \<Rightarrow> Inl e
            | Inr h \<Rightarrow> Inr (s\<lparr>home := JStr h\<rparr>)))"

definition update_content_root :: "(string \<times> json) list \<Rightarrow> settings \<Rightarrow> error + settings" where
  "update_content_root kvs s =
     (if ''content_root'' \<in> set (map fst kvs) then Inr s
      else (case home s of
              JStr h \<Rightarrow> Inr (s\<lparr>content_root := JStr (path_join h ''content'')\<rparr>)
            | _ \<Rightarrow> Inl TypeError))"

text \<open>
  Lines 92 to 111, the user settings layer, from the settings built out of the
  defaults. Only \<^verbatim>\<open>ValueError\<close> is caught around the layer, and only \<^verbatim>\<open>json.load\<close>
  raises it; \<^verbatim>\<open>.items()\<close> on a value that is not a dictionary is an
  \<^verbatim>\<open>AttributeError\<close>.
  \<^verbatim>\<open>
  if os.path.isfile(KALITE_GTK_SETTINGS_FILE):
      try:
          loaded_settings = json.load(open(KALITE_GTK_SETTINGS_FILE, 'r'))
          if debian_username:
              del loaded_settings['user']
          for (k, v) in loaded_settings.items(): ...
          if 'home' not in loaded_settings: ...
          if 'content_root' not in loaded_settings: ...
      except ValueError:
          logger.error("Parsing error in {}".format(KALITE_GTK_SETTINGS_FILE))
  \<close>
\<close>

definition load_user_settings ::
  "environment \<Rightarrow> string option \<Rightarrow> settings \<Rightarrow> (error + settings) \<times> log_entry list"
where
  "load_user_settings env du s =
     (case user_settings_file env of
        NoFile \<Rightarrow> (Inr s, [])
      | Unparsable \<Rightarrow> (Inr s, [ParsingError])
      | Parsed loaded \<Rightarrow>
          (case (if truthy du then del_key ''user'' loaded else Inr loaded) of
             Inl e \<Rightarrow> (Inl e, [])
           | Inr (JDict kvs) \<Rightarrow>
               (let (s1, lg) = load_fields env kvs s []
                in (case update_home env kvs s1 of
                      Inl e \<Rightarrow> (Inl e, lg)
                    | Inr s2 \<Rightarrow> (update_content_root kvs s2, lg)))
           | Inr _ \<Rightarrow> (Inl AttributeError, [])))"

text \<open>
  The whole top-level code: the defaults, the system convention layer, the dictionary
  \<^verbatim>\<open>settings\<close> of lines 77 to 88, then the user settings layer. An exception ends the
  import of the module.
\<close>

definition default_settings :: "environment \<Rightarrow> string \<Rightarrow> int \<Rightarrow> string \<Rightarrow> settings" where
  "default_settings env default_user default_port default_home =
     \<lparr>user = default_user,
      command = find_executable env ''kalite'',
      content_root = JStr (path_join default_home ''content''),
      port = default_port,
      home = JStr default_home,
      extra = []\<rparr>"

definition load_module :: "environment \<Rightarrow> (error + module_state) \<times> log_entry list" where
  "load_module env =
     (let ((du, default_user, default_port), lg1) = debian_defaults env
      in (case get_kalite_home env default_user of
            Inl e \<Rightarrow> (Inl e, lg1)
          | Inr default_home \<Rightarrow>
              (let (r, lg2) = load_user_settings env du
                                (default_settings env default_user default_port default_home)
               in (map_sum id
                     (\<lambda>s. \<lparr>DEFAULT_USER = default_user, DEFAULT_PORT = default_port,
                           DEFAULT_HOME = default_home,
                           escalation = select_escalation env,
                           debian_username = du, settings = s\<rparr>) r,
                   lg1 @ lg2))))"

section \<open>The command builder\<close>

text \<open>
  \<^verbatim>\<open>
  def get_command(kalite_command):
      return [settings['command']] + kalite_command.split(" ")
  \<close>
  The list can hold \<^verbatim>\<open>None\<close>, so an argument vector is a list of values. Nothing in
  the body raises; the result type has the error side so that this can be stated.
\<close>

definition command_value :: "settings \<Rightarrow> json" where
  "command_value s = (case command s of None \<Rightarrow> JNull | Some c \<Rightarrow> JStr c)"

definition get_command :: "module_state \<Rightarrow> string \<Rightarrow> error + json list" where
  "get_command m kalite_command =
     Inr ([command_value (settings m)] @ map JStr (split_on CHR '' '' kalite_command))"

text \<open>
  \<^verbatim>\<open>
  def sudo(cmd, no_su=False):
      return shlex.split(SUDO_COMMAND) + cmd
  \<close>
  \<^verbatim>\<open>SUDO_COMMAND\<close> is one of two single words, which \<^verbatim>\<open>shlex.split\<close> returns as a
  one-element list.
\<close>

definition sudo :: "module_state \<Rightarrow> json list \<Rightarrow> json list" where
  "sudo m cmd = [JStr (SUDO_COMMAND m)] @ cmd"

section \<open>The process executor\<close>

text \<open>
  A \<^verbatim>\<open>subprocess.Popen\<close> object with both pipes: what is still unread on each, the
  status the child ends with, and the attribute \<^verbatim>\<open>returncode\<close>. The attribute is
  \<^verbatim>\<open>None\<close> when the object is made and is set by \<^verbatim>\<open>poll()\<close>, \<^verbatim>\<open>wait()\<close> and
  \<^verbatim>\<open>communicate()\<close> only; reading a pipe does not touch it.
\<close>

record popen =
  stdout_pipe :: string
  stderr_pipe :: string
  exit_status :: int
  returncode :: "int option"

fun str_args :: "json list \<Rightarrow> string list option" where
  "str_args [] = Some []"
| "str_args (JStr a # cmd) = map_option ((#) a) (str_args cmd)"
| "str_args (_ # cmd) = None"

text \<open>
  \<^verbatim>\<open>subprocess.Popen(cmd, stdout=PIPE, stderr=PIPE, env=env, shell=shell)\<close> with
  \<^verbatim>\<open>env['KALITE_HOME']\<close> set to \<open>kalite_home\<close>. Without \<^verbatim>\<open>shell\<close>, an empty argument
  vector is an \<^verbatim>\<open>IndexError\<close> (there is no \<^verbatim>\<open>args[0]\<close> to execute); an argument or an environment value that is not a string is a
  \<^verbatim>\<open>TypeError\<close>; a program that cannot be executed is an \<^verbatim>\<open>OSError\<close>. The second
  component lists the argument vectors handed to the operating system.
\<close>

definition Popen ::
  "environment \<Rightarrow> json list \<Rightarrow> bool \<Rightarrow> json \<Rightarrow> (error + popen) \<times> string list list"
where
  "Popen env cmd shell kalite_home =
     (if cmd = [] \<and> \<not> shell then (Inl IndexError, [])
      else (case (str_args cmd, kalite_home) of
              (Some argv, JStr h) \<Rightarrow>
                (case spawn env argv shell h of
                   None \<Rightarrow> (Inl OSError, [argv])
                 | Some proc \<Rightarrow>
                     (Inr \<lparr>stdout_pipe = proc_stdout proc, stderr_pipe = proc_stderr proc,
                           exit_status = proc_exit proc, returncode = None\<rparr>, [argv]))
            | _ \<Rightarrow> (Inl TypeError, [])))"

text \<open>\<^verbatim>\<open>p.communicate()\<close> reads both pipes to their end and waits for the child.\<close>

definition communicate :: "popen \<Rightarrow> (string \<times> string) \<times> popen" where
  "communicate p =
     ((stdout_pipe p, stderr_pipe p),
      p\<lparr>stdout_pipe := [], stderr_pipe := [], returncode := Some (exit_status p)\<rparr>)"

text \<open>
  \<^verbatim>\<open>p.stdout.readline()\<close>: the text up to and including the next line feed, or all
  that is left when there is none; the empty string only at the end of the stream.
\<close>

definition readline :: "popen \<Rightarrow> string \<times> popen" where
  "readline p =
     (case dropWhile (\<lambda>c. c \<noteq> CHR 0x0A) (stdout_pipe p) of
        [] \<Rightarrow> (stdout_pipe p, p\<lparr>stdout_pipe := []\<rparr>)
      | nl # rest \<Rightarrow>
          (takeWhile (\<lambda>c. c \<noteq> CHR 0x0A) (stdout_pipe p) @ [nl], p\<lparr>stdout_pipe := rest\<rparr>))"

text \<open>
  \<^verbatim>\<open>
  def run_kalite_command(cmd, shell=False):
      env = os.environ.copy()
      env['KALITE_HOME'] = settings['home']
      logger.debug("Running command: {}, KALITE_HOME={}".format(cmd, str(settings['home'])))
      p = subprocess.Popen(cmd, stdout=subprocess.PIPE, stderr=subprocess.PIPE, env=env, shell=shell)
      stdout, stderr = p.communicate()
      return [stdout.decode(), stderr.decode(), p.returncode]
  \<close>
  The result comes with the argument vectors started and the messages logged.
\<close>

definition run_kalite_command ::
  "environment \<Rightarrow> module_state \<Rightarrow> json list \<Rightarrow> bool
     \<Rightarrow> (error + string \<times> string \<times> int option) \<times> string list list \<times> log_entry list"
where
  "run_kalite_command env m cmd shell =
     (let (r, calls) = Popen env cmd shell (home (settings m))
      in ((case r of
             Inl e \<Rightarrow> Inl e
           | Inr p \<Rightarrow> (let ((out, err), p') = communicate p in Inr (out, err, returncode p'))),
          calls, [RunningCommand cmd (home (settings m))]))"

text \<open>
  \<^verbatim>\<open>
  def stream_kalite_command(cmd, shell=False):
      env = os.environ.copy()
      env['KALITE_HOME'] = settings['home']
      logger.debug("Streaming command: {}, KALITE_HOME={}".format(cmd, str(settings['home'])))
      p = subprocess.Popen(cmd, stdout=subprocess.PIPE, stderr=subprocess.PIPE, env=env, shell=shell)
      for line in iter(lambda: p.stdout.readline().decode(), ''):
          yield line, None, None
      yield (None, p.stderr.read().decode() if p.stderr is not None else None, p.returncode)
  \<close>
  The model is the list of the tuples a consumer gets that drains the generator.
  \<open>stream_lines\<close> is the loop with the final \<^verbatim>\<open>yield\<close>: it calls \<^verbatim>\<open>readline\<close> until
  the empty string comes back, then reads what is on the error pipe and the attribute
  \<^verbatim>\<open>returncode\<close> as it stands.
\<close>

type_synonym chunk = "string option \<times> string option \<times> int option"

function stream_lines :: "popen \<Rightarrow> chunk list" where
  "stream_lines p =
     (if fst (readline p) = []
      then [(None, Some (stderr_pipe (snd (readline p))), returncode (snd (readline p)))]
      else (Some (fst (readline p)), None, None) # stream_lines (snd (readline p)))"
  by pat_completeness auto
termination
proof (relation "measure (\<lambda>p. length (stdout_pipe p))")
  show "wf (measure (\<lambda>p. length (stdout_pipe p)))" by simp
next
  fix p :: popen
  assume line: "fst (readline p) \<noteq> []"
  have "length (stdout_pipe (snd (readline p))) < length (stdout_pipe p)"
  proof (cases "dropWhile (\<lambda>c. c \<noteq> CHR 0x0A) (stdout_pipe p)")
    case Nil
    have "readline p = (stdout_pipe p, p\<lparr>stdout_pipe := []\<rparr>)"
      unfolding readline_def Nil by simp
    with line show ?thesis by simp
  next
    case (Cons nl rest)
    have "readline p
            = (takeWhile (\<lambda>c. c \<noteq> CHR 0x0A) (stdout_pipe p) @ [nl], p\<lparr>stdout_pipe := rest\<rparr>)"
      unfolding readline_def Cons by simp
    moreover have "length (dropWhile (\<lambda>c. c \<noteq> CHR 0x0A) (stdout_pipe p))
                     \<le> length (stdout_pipe p)"
      by (rule length_dropWhile_le)
    ultimately show ?thesis using Cons by simp
  qed
  then show "(snd (readline p), p) \<in> measure (\<lambda>p. length (stdout_pipe p))" by simp
qed

declare stream_lines.simps [simp del]

definition stream_kalite_command ::
  "environment \<Rightarrow> module_state \<Rightarrow> json list \<Rightarrow> bool
     \<Rightarrow> (error + chunk list) \<times> string list list \<times> log_entry list"
where
  "stream_kalite_command env m cmd shell =
     (let (r, calls) = Popen env cmd shell (home (settings m))
      in ((case r of Inl e \<Rightarrow> Inl e | Inr p \<Rightarrow> Inr (stream_lines p)),
          calls, [StreamingCommand cmd (home (settings m))]))"

section \<open>Settings persistence\<close>

text \<open>
  \<^verbatim>\<open>json.dump(settings, ...)\<close> writes the dictionary: the five keys in the order of the
  dictionary display of line 82, then the keys taken over from the settings file.
\<close>

definition settings_json :: "settings \<Rightarrow> json" where
  "settings_json s =
     JDict ([(''user'', JStr (user s)),
             (''command'', command_value s),
             (''content_root'', content_root s),
             (''port'', JInt (port s)),
             (''home'', home s)] @ extra s)"

text \<open>\<^verbatim>\<open>'{}'.format(v)\<close> for a value of the dictionary.\<close>

definition py_format :: "environment \<Rightarrow> json \<Rightarrow> string" where
  "py_format env v =
     (case v of
        JNull \<Rightarrow> ''None''
      | JBool b \<Rightarrow> (if b then ''True'' else ''False'')
      | JInt i \<Rightarrow> str_int i
      | JStr s \<Rightarrow> s
      | _ \<Rightarrow> py_repr env v)"

text \<open>
  Lines 309 to 318: the new content of the options file, from the port and the
  current content.
  \<^verbatim>\<open>
  current_server_options = re.sub(r'--port=\d+', '--port={}'.format(settings['port']),
                                  current_server_options)
  current_server_options = current_server_options.strip()
  # ...If not found, append a new option
  if '--port' not in current_server_options:
      current_server_options += ' --port={}'.format(settings['port'])
  \<close>
\<close>

definition port_option :: "int \<Rightarrow> string" where
  "port_option p = ''--port='' @ str_int p"

definition new_server_options :: "int \<Rightarrow> string \<Rightarrow> string" where
  "new_server_options p current_server_options =
     (let replaced = strip (sub_port (port_option p) current_server_options)
      in if \<not> contains ''--port'' replaced then replaced @ '' '' @ port_option p
         else replaced)"

text \<open>
  Lines 305 to 328: the list \<^verbatim>\<open>bash_commands\<close>. \<^verbatim>\<open>open(DEBIAN_OPTIONS_FILE, 'r')\<close>
  raises \<^verbatim>\<open>IOError\<close> when there is no such file.
  \<^verbatim>\<open>
  bash_commands = []
  if settings['port'] != DEFAULT_PORT:
      current_server_options = open(DEBIAN_OPTIONS_FILE, 'r').read()
      ...
      bash_commands.append('echo "{server_options}" > {options_file}'.format(
          server_options=current_server_options, options_file=DEBIAN_OPTIONS_FILE))
  if settings['home'] != DEFAULT_HOME:
      bash_commands.append('echo "{home}" > {home_file}'.format(
          home=settings['home'], home_file=DEBIAN_HOME_FILE))
  \<close>
\<close>

definition echo_to :: "string \<Rightarrow> string \<Rightarrow> string" where
  "echo_to text file = ''echo '' @ [CHR 0x22] @ text @ [CHR 0x22] @ '' > '' @ file"

definition options_commands :: "environment \<Rightarrow> module_state \<Rightarrow> error + string list" where
  "options_commands env m =
     (if port (settings m) \<noteq> DEFAULT_PORT m
      then (case options_file env of
              None \<Rightarrow> Inl IOError
            | Some current_server_options \<Rightarrow>
                Inr [echo_to (new_server_options (port (settings m)) current_server_options)
                       ''/etc/ka-lite/server_options''])
      else Inr [])"

definition home_commands :: "environment \<Rightarrow> module_state \<Rightarrow> string list" where
  "home_commands env m =
     (if home (settings m) \<noteq> JStr (DEFAULT_HOME m)
      then [echo_to (py_format env (home (settings m))) ''/etc/ka-lite/home'']
      else [])"

definition bash_commands :: "environment \<Rightarrow> module_state \<Rightarrow> error + string list" where
  "bash_commands env m =
     (case options_commands env m of
        Inl e \<Rightarrow> Inl e
      | Inr cmds \<Rightarrow> Inr (cmds @ home_commands env m))"

text \<open>\<^verbatim>\<open>s.encode('ascii')\<close>.\<close>

definition encode_ascii :: "string \<Rightarrow> error + string" where
  "encode_ascii s = (if list_all (\<lambda>c. (of_char c :: nat) < 128) s then Inr s else Inl UnicodeEncodeError)"

text \<open>
  \<^verbatim>\<open>
  def save_debian_settings():
      if DEFAULT_USER != settings['user']:
          logger.info("Not saving debian settings for non-default user {}, ...")
          return
      bash_commands = []
      ...
      __, stderr, returncode = run_kalite_command(
          sudo(["bash".encode('ascii'), "-c".encode('ascii'),
                " && ".join(bash_commands).encode('ascii')]))
      if returncode == 0:
          logger.info("Successfully wrote new debian config")
      else:
          logger.error("Error writing debian config: {}".format(stderr))
  \<close>
  The result comes with the argument vectors started and the messages logged.
\<close>

definition save_debian_settings ::
  "environment \<Rightarrow> module_state \<Rightarrow> (error + unit) \<times> string list list \<times> log_entry list"
where
  "save_debian_settings env m =
     (if DEFAULT_USER m \<noteq> user (settings m)
      then (Inr (), [], [NotSavingDebian (user (settings m))])
      else (case bash_commands env m of
              Inl e \<Rightarrow> (Inl e, [], [])
            | Inr cmds \<Rightarrow>
                (case encode_ascii (join '' && '' cmds) of
                   Inl e \<Rightarrow> (Inl e, [], [])
                 | Inr script \<Rightarrow>
                     (let (r, calls, lg) =
                            run_kalite_command env m
                              (sudo m [JStr ''bash'', JStr ''-c'', JStr script]) False
                      in (case r of
                            Inl e \<Rightarrow> (Inl e, calls, lg)
                          | Inr (out, err, rc) \<Rightarrow>
                              (Inr (), calls,
                               lg @ [if rc = Some 0 then WroteDebianConfig
                                     else ErrorWritingDebian err]))))))"

text \<open>
  \<^verbatim>\<open>
  def save_settings():
      json.dump(settings, open(KALITE_GTK_SETTINGS_FILE, 'w'))
      save_debian_settings()
  \<close>
  The effects of a call: the content of the user settings file afterwards, the
  argument vectors started and the messages logged. When the file cannot be opened
  for writing, the \<^verbatim>\<open>IOError\<close> of \<^verbatim>\<open>open\<close> ends the call at once: the file is left as
  it was and \<^verbatim>\<open>save_debian_settings\<close> is not reached. Otherwise the file is written
  before anything else happens, so also when an exception follows.
\<close>

record effects =
  written :: settings_file
  popen_calls :: "string list list"
  logged :: "log_entry list"

definition save_settings :: "environment \<Rightarrow> module_state \<Rightarrow> (error + unit) \<times> effects" where
  "save_settings env m =
     (if \<not> settings_file_writable env
      then (Inl IOError, \<lparr>written = user_settings_file env, popen_calls = [], logged = []\<rparr>)
      else (let (r, calls, lg) = save_debian_settings env m
            in (r, \<lparr>written = Parsed (settings_json (settings m)), popen_calls = calls,
                    logged = lg\<rparr>)))"

section \<open>Vocabulary of the statements\<close>

text \<open>
  \<open>lookup s k\<close> is \<^verbatim>\<open>settings.get(k)\<close>. \<open>stored env k v\<close> is the value that line 101 assigns
  to \<^verbatim>\<open>settings[k]\<close> for the item \<open>(k, v)\<close> of the settings file, \<^const>\<open>None\<close> when the
  validator raises; \<open>field_fails\<close> says that it raises. \<open>illegal_values\<close> lists the keys
  of the messages \<^verbatim>\<open>Illegal value in ... for k\<close> of a log. \<open>loaded_items\<close> are the items the
  loop of line 99 runs over: those of the file, without \<^verbatim>\<open>user\<close> when
  \<^verbatim>\<open>debian_username\<close> is set.
\<close>

definition lookup :: "settings \<Rightarrow> string \<Rightarrow> json option" where
  "lookup s k =
     (if k = ''user'' then Some (JStr (user s))
      else if k = ''command'' then Some (command_value s)
      else if k = ''content_root'' then Some (content_root s)
      else if k = ''port'' then Some (JInt (port s))
      else if k = ''home'' then Some (home s)
      else map_of (extra s) k)"

definition stored :: "environment \<Rightarrow> string \<Rightarrow> json \<Rightarrow> json option" where
  "stored env k v =
     (if k = ''user'' then map_option JStr (validate_user env v)
      else if k = ''port'' then map_option JInt (validate_port env v)
      else if k = ''command'' then map_option JStr (validate_command env v)
      else Some v)"

definition field_fails :: "environment \<Rightarrow> string \<Rightarrow> json \<Rightarrow> bool" where
  "field_fails env k v \<longleftrightarrow>
     (k = ''user'' \<and> validate_user env v = None)
     \<or> (k = ''port'' \<and> validate_port env v = None)
     \<or> (k = ''command'' \<and> validate_command env v = None)"

definition illegal_values :: "log_entry list \<Rightarrow> string list" where
  "illegal_values lg = concat (map (\<lambda>e. case e of IllegalValue k \<Rightarrow> [k] | _ \<Rightarrow> []) lg)"

definition loaded_items :: "string option \<Rightarrow> (string \<times> json) list \<Rightarrow> (string \<times> json) list" where
  "loaded_items du kvs = (if truthy du then AList.delete ''user'' kvs else kvs)"

text \<open>
  A settings dictionary is well formed when no key occurs twice in it. It is valid on
  a system when, in addition, each validated field is a value its validator returns
  unchanged; an absent \<^verbatim>\<open>command\<close> is valid when the validator rejects \<^verbatim>\<open>None\<close> and
  the managed binary is indeed not on the path.
\<close>

definition reserved_keys :: "string list" where
  "reserved_keys = [''user'', ''command'', ''content_root'', ''port'', ''home'']"

definition well_formed :: "settings \<Rightarrow> bool" where
  "well_formed s \<longleftrightarrow>
     distinct (map fst (extra s)) \<and> (\<forall>k \<in> set (map fst (extra s)). k \<notin> set reserved_keys)"

definition valid_settings :: "environment \<Rightarrow> settings \<Rightarrow> bool" where
  "valid_settings env s \<longleftrightarrow>
     well_formed s
     \<and> validate_user env (JStr (user s)) = Some (user s)
     \<and> validate_port env (JInt (port s)) = Some (port s)
     \<and> (case command s of
          Some c \<Rightarrow> validate_command env (JStr c) = Some c
        | None \<Rightarrow> validate_command env JNull = None \<and> find_executable env ''kalite'' = None)"

section \<open>Sample systems\<close>

text \<open>
  Concrete systems on which the functions are run. \<open>plain_env\<close> is a machine without the
  system convention files and without a user settings file, which can be written: the
  invoking user is
  \<^verbatim>\<open>alice\<close>, there is a second account \<^verbatim>\<open>kalite\<close>, both \<^verbatim>\<open>kalite\<close> and \<^verbatim>\<open>pkexec\<close> are
  on the path. Its validators accept an existing account, a port from 1 to 65535 and a
  non-empty command string. \<^verbatim>\<open>kalite start\<close> prints two lines, writes a warning to its
  error stream and exits with status 3; every other command prints nothing and exits
  with 0.
\<close>

definition ok_process :: process where
  "ok_process = \<lparr>proc_stdout = [], proc_stderr = [], proc_exit = 0\<rparr>"

definition start_process :: process where
  "start_process =
     \<lparr>proc_stdout = ''Starting\<newline>Running\<newline>'', proc_stderr = ''warn'', proc_exit = 3\<rparr>"

definition plain_env :: environment where
  "plain_env =
     \<lparr>getuser = ''alice'',
      getpwnam = (\<lambda>u. if u = ''alice'' then Some ''/home/alice''
                      else if u = ''kalite'' then Some ''/var/kalite'' else None),
      find_executable = (\<lambda>n. if n = ''kalite'' then Some ''/usr/bin/kalite''
                             else if n = ''pkexec'' then Some ''/usr/bin/pkexec'' else None),
      username_file = None,
      options_file = None,
      user_settings_file = NoFile,
      settings_file_writable = True,
      validate_user = (\<lambda>v. case v of
                              JStr u \<Rightarrow> if u = ''alice'' \<or> u = ''kalite'' then Some u else None
                            | _ \<Rightarrow> None),
      validate_port = (\<lambda>v. case v of
                              JInt n \<Rightarrow> if 1 \<le> n \<and> n \<le> 65535 then Some n else None
                            | _ \<Rightarrow> None),
      validate_command = (\<lambda>v. case v of
                                 JStr c \<Rightarrow> if c \<noteq> [] then Some c else None
                               | _ \<Rightarrow> None),
      spawn = (\<lambda>argv shell h. if argv = [''/usr/bin/kalite'', ''start''] then Some start_process
                               else Some ok_process),
      py_repr = (\<lambda>v. ''?'')\<rparr>"

text \<open>The module's state after its import on \<open>plain_env\<close> (lemma \<open>load_plain\<close> below).\<close>

definition plain_state :: module_state where
  "plain_state =
     \<lparr>DEFAULT_USER = ''alice'', DEFAULT_PORT = 8008, DEFAULT_HOME = ''/home/alice/.kalite'',
      escalation = Pkexec, debian_username = None,
      settings = \<lparr>user = ''alice'', command = Some ''/usr/bin/kalite'',
                  content_root = JStr ''/home/alice/.kalite/content'', port = 8008,
                  home = JStr ''/home/alice/.kalite'', extra = []\<rparr>\<rparr>"

text \<open>The same machine with the managed binary not on the path, and the state it gives.\<close>

definition no_binary_env :: environment where
  "no_binary_env =
     plain_env\<lparr>find_executable := (\<lambda>n. if n = ''pkexec'' then Some ''/usr/bin/pkexec'' else None)\<rparr>"

definition no_binary_state :: module_state where
  "no_binary_state = plain_state\<lparr>settings := (settings plain_state)\<lparr>command := None\<rparr>\<rparr>"

text \<open>
  The same machine with the packaged service installed for the account \<^verbatim>\<open>kalite\<close>, and
  a user settings file that holds a port and no \<^verbatim>\<open>user\<close>.
\<close>

definition debian_env :: environment where
  "debian_env =
     plain_env\<lparr>username_file := Some ''kalite\<newline>'',
               user_settings_file := Parsed (JDict [(''port'', JInt 8009)])\<rparr>"

text \<open>Settings for another account, port and home, with one key of the user's own.\<close>

definition themed_state :: module_state where
  "themed_state =
     plain_state\<lparr>settings := (settings plain_state)\<lparr>user := ''kalite'', port := 8009,
                     home := JStr ''/srv/kalite'', extra := [(''theme'', JStr ''dark'')]\<rparr>\<rparr>"

text \<open>
  The machine with the packaged service installed for \<^verbatim>\<open>kalite\<close>, and a user settings
  file whose port 0 is out of range.
\<close>

definition bad_port_items :: "(string \<times> json) list" where
  "bad_port_items = [(''user'', JStr ''alice''), (''port'', JInt 0), (''theme'', JStr ''dark'')]"

definition bad_port_env :: environment where
  "bad_port_env =
     plain_env\<lparr>username_file := Some ''kalite\<newline>'',
               user_settings_file := Parsed (JDict bad_port_items)\<rparr>"

text \<open>
  The machine with the packaged service installed for \<^verbatim>\<open>kalite\<close>, and a user settings
  file that names an account that does not exist and a port in range; and the state
  the import of the module gives on it.
\<close>

definition ghost_env :: environment where
  "ghost_env =
     plain_env\<lparr>username_file := Some ''kalite\<newline>'',
               user_settings_file :=
                 Parsed (JDict [(''user'', JStr ''ghost''), (''port'', JInt 8009)])\<rparr>"

definition ghost_state :: module_state where
  "ghost_state =
     \<lparr>DEFAULT_USER = ''kalite'', DEFAULT_PORT = 8008, DEFAULT_HOME = ''/var/kalite/.kalite'',
      escalation = Pkexec, debian_username = Some ''kalite'',
      settings = \<lparr>user = ''kalite'', command = Some ''/usr/bin/kalite'',
                  content_root = JStr ''/var/kalite/.kalite/content'', port = 8009,
                  home = JStr ''/var/kalite/.kalite'', extra = []\<rparr>\<rparr>"

section \<open>Theorems\<close>

subsection \<open>Supporting lemmas\<close>

lemma load_plain: "load_module plain_env = (Inr plain_state, [])"
  by (simp add: load_module_def plain_env_def plain_state_def debian_defaults_def
      get_kalite_home_def path_join_def load_user_settings_def default_settings_def
      select_escalation_def)

lemma load_no_binary: "load_module no_binary_env = (Inr no_binary_state, [])"
  by (simp add: load_module_def no_binary_env_def plain_env_def plain_state_def
      no_binary_state_def debian_defaults_def get_kalite_home_def path_join_def
      load_user_settings_def default_settings_def select_escalation_def)

lemma readline_frame:
  "stderr_pipe (snd (readline p)) = stderr_pipe p"
  "returncode (snd (readline p)) = returncode p"
  by (simp_all add: readline_def split: list.splits)

lemma stream_lines_nonempty: "stream_lines p \<noteq> []"
  by (subst stream_lines.simps) simp

text \<open>The last tuple of the stream carries \<^verbatim>\<open>returncode\<close> as it was before the loop.\<close>

lemma stream_lines_last: "last (stream_lines p) = (None, Some (stderr_pipe p), returncode p)"
proof (induction p rule: stream_lines.induct)
  case (1 p)
  show ?case
  proof (cases "fst (readline p) = []")
    case True
    then show ?thesis by (subst stream_lines.simps) (simp add: readline_frame)
  next
    case False
    with 1 have "last (stream_lines (snd (readline p))) = (None, Some (stderr_pipe p), returncode p)"
      by (simp add: readline_frame)
    with False show ?thesis
      by (subst stream_lines.simps) (simp add: stream_lines_nonempty)
  qed
qed

lemma Popen_returncode:
  assumes "Popen env cmd shell h = (Inr p, calls)"
  shows "returncode p = None"
  using assms unfolding Popen_def
  by (simp split: if_splits option.splits json.splits) (metis popen.select_convs(4))

text \<open>
  Whatever the command and the child: when the stream is produced at all, its last
  tuple has no line and no exit code.
\<close>

lemma stream_kalite_command_final:
  assumes "fst (stream_kalite_command env m cmd shell) = Inr chunks"
  shows "chunks \<noteq> [] \<and> fst (last chunks) = None \<and> snd (snd (last chunks)) = None"
proof -
  obtain r calls where P: "Popen env cmd shell (home (settings m)) = (r, calls)"
    by (cases "Popen env cmd shell (home (settings m))")
  show ?thesis
  proof (cases r)
    case (Inl e)
    with assms P show ?thesis by (simp add: stream_kalite_command_def)
  next
    case (Inr p)
    with assms P have c: "chunks = stream_lines p" by (simp add: stream_kalite_command_def)
    from P Inr have "returncode p = None" by (simp add: Popen_returncode)
    with c show ?thesis by (simp add: stream_lines_nonempty stream_lines_last)
  qed
qed

lemma split_on_acc_nonempty: "split_on_acc c cur s \<noteq> []"
  by (induction s arbitrary: cur) auto

lemma join_split_on_acc: "join [c] (split_on_acc c cur s) = cur @ s"
proof (induction s arbitrary: cur)
  case Nil
  show ?case by simp
next
  case (Cons a s)
  show ?case
  proof (cases "a = c")
    case True
    obtain y ys where ys: "split_on_acc c [] s = y # ys"
      using split_on_acc_nonempty [of c "[]" s] by (cases "split_on_acc c [] s") auto
    have "join [c] (y # ys) = s" using Cons.IH [of "[]"] ys by simp
    with True ys show ?thesis by simp
  next
    case False
    then show ?thesis using Cons.IH [of "cur @ [a]"] by simp
  qed
qed

lemma join_split_on: "join [c] (split_on c s) = s"
  by (simp add: split_on_def join_split_on_acc)

lemma split_on_acc_no_sep:
  "c \<notin> set cur \<Longrightarrow> list_all (\<lambda>t. c \<notin> set t) (split_on_acc c cur s)"
  by (induction s arbitrary: cur) auto

lemma split_on_no_sep: "list_all (\<lambda>t. c \<notin> set t) (split_on c s)"
  by (simp add: split_on_def split_on_acc_no_sep)

lemma split_on_nonempty: "split_on c s \<noteq> []"
  by (simp add: split_on_def split_on_acc_nonempty)

subsection \<open>Lemmas on the user settings layer\<close>

text \<open>What one assignment of line 101 does to the dictionary.\<close>

lemma set_field_None_iff: "set_field env k v s = None \<longleftrightarrow> field_fails env k v"
  by (auto simp: set_field_def field_fails_def)

lemma field_fails_keys: "field_fails env k v \<Longrightarrow> k \<noteq> ''home'' \<and> k \<noteq> ''content_root''"
  by (auto simp: field_fails_def)

lemma lookup_simps:
  "lookup (s\<lparr>user := u\<rparr>) k = (if k = ''user'' then Some (JStr u) else lookup s k)"
  "lookup (s\<lparr>port := p\<rparr>) k = (if k = ''port'' then Some (JInt p) else lookup s k)"
  "lookup (s\<lparr>command := Some c\<rparr>) k = (if k = ''command'' then Some (JStr c) else lookup s k)"
  "lookup (s\<lparr>home := v\<rparr>) k = (if k = ''home'' then Some v else lookup s k)"
  "lookup (s\<lparr>content_root := v\<rparr>) k = (if k = ''content_root'' then Some v else lookup s k)"
  by (simp_all add: lookup_def command_value_def)

lemma lookup_extra:
  "k' \<noteq> ''user'' \<Longrightarrow> k' \<noteq> ''port'' \<Longrightarrow> k' \<noteq> ''command'' \<Longrightarrow> k' \<noteq> ''home'' \<Longrightarrow>
   k' \<noteq> ''content_root'' \<Longrightarrow>
   lookup (s\<lparr>extra := AList.update k' v (extra s)\<rparr>) k = (if k = k' then Some v else lookup s k)"
  by (simp add: lookup_def command_value_def update_conv')

lemma set_field_cases:
  assumes "set_field env k v s = Some s'"
  obtains u where "k = ''user''" "validate_user env v = Some u" "s' = s\<lparr>user := u\<rparr>"
  | p where "k = ''port''" "validate_port env v = Some p" "s' = s\<lparr>port := p\<rparr>"
  | c where "k = ''command''" "validate_command env v = Some c" "s' = s\<lparr>command := Some c\<rparr>"
  | "k = ''home''" "s' = s\<lparr>home := v\<rparr>"
  | "k = ''content_root''" "s' = s\<lparr>content_root := v\<rparr>"
  | "k \<noteq> ''user''" "k \<noteq> ''port''" "k \<noteq> ''command''" "k \<noteq> ''home''" "k \<noteq> ''content_root''"
    "s' = s\<lparr>extra := AList.update k v (extra s)\<rparr>"
proof (cases "k = ''user''")
  case True
  with assms obtain u where "validate_user env v = Some u" "s' = s\<lparr>user := u\<rparr>"
    by (auto simp: set_field_def)
  with True that(1) show ?thesis by simp
next
  case nu: False
  show ?thesis
  proof (cases "k = ''port''")
    case True
    with assms obtain p where "validate_port env v = Some p" "s' = s\<lparr>port := p\<rparr>"
      by (auto simp: set_field_def)
    with True that(2) show ?thesis by simp
  next
    case np: False
    show ?thesis
    proof (cases "k = ''command''")
      case True
      with assms obtain c where "validate_command env v = Some c" "s' = s\<lparr>command := Some c\<rparr>"
        by (auto simp: set_field_def)
      with True that(3) show ?thesis by simp
    next
      case nc: False
      show ?thesis
      proof (cases "k = ''home''")
        case True
        with assms have "s' = s\<lparr>home := v\<rparr>" by (simp add: set_field_def)
        with True that(4) show ?thesis by simp
      next
        case nh: False
        show ?thesis
        proof (cases "k = ''content_root''")
          case True
          with assms have "s' = s\<lparr>content_root := v\<rparr>" by (simp add: set_field_def)
          with True that(5) show ?thesis by simp
        next
          case False
          with assms nu np nc nh have "s' = s\<lparr>extra := AList.update k v (extra s)\<rparr>"
            by (simp add: set_field_def)
          with False nu np nc nh that(6) show ?thesis by simp
        qed
      qed
    qed
  qed
qed

lemma set_field_lookup_other:
  assumes "set_field env k v s = Some s'" and "k' \<noteq> k"
  shows "lookup s' k' = lookup s k'"
  using assms(1)
proof (cases rule: set_field_cases)
  case 6
  with assms(2) show ?thesis by (simp add: lookup_extra)
qed (use assms(2) in \<open>simp_all add: lookup_simps\<close>)

lemma set_field_lookup_same:
  assumes "set_field env k v s = Some s'"
  shows "lookup s' k = stored env k v"
  using assms
proof (cases rule: set_field_cases)
  case 6
  then show ?thesis by (simp add: lookup_extra stored_def)
qed (simp_all add: lookup_simps stored_def)

text \<open>The loop logs one message for each item that fails, in the order of the items.\<close>

lemma load_fields_log:
  "snd (load_fields env kvs s lg)
     = lg @ map IllegalValue (map fst (filter (\<lambda>(k, v). field_fails env k v) kvs))"
proof (induction kvs arbitrary: s lg)
  case Nil
  show ?case by simp
next
  case (Cons kv kvs)
  obtain k v where kv: "kv = (k, v)" by (cases kv)
  show ?case
  proof (cases "set_field env k v s")
    case None
    then have "field_fails env k v" by (simp add: set_field_None_iff)
    with None kv Cons.IH [of s "lg @ [IllegalValue k]"] show ?thesis by simp
  next
    case (Some s')
    then have "\<not> field_fails env k v" using set_field_None_iff [of env k v s] by simp
    with Some kv Cons.IH [of s' lg] show ?thesis by simp
  qed
qed

lemma load_fields_state_log: "fst (load_fields env kvs s lg) = fst (load_fields env kvs s lg')"
  by (induction kvs arbitrary: s lg lg') (auto split: option.splits)

lemma load_fields_skip:
  assumes "\<forall>v. (k0, v) \<in> set kvs \<longrightarrow> field_fails env k0 v"
  shows "fst (load_fields env kvs s lg) = fst (load_fields env (AList.delete k0 kvs) s lg)"
  using assms
proof (induction kvs arbitrary: s lg)
  case Nil
  show ?case by simp
next
  case (Cons kv kvs)
  obtain k v where kv: "kv = (k, v)" by (cases kv)
  from Cons.prems have tl: "\<forall>v. (k0, v) \<in> set kvs \<longrightarrow> field_fails env k0 v" by simp
  show ?case
  proof (cases "k = k0")
    case True
    with Cons.prems kv have "set_field env k v s = None" by (simp add: set_field_None_iff)
    with True kv Cons.IH [OF tl, of s lg] load_fields_state_log [of env kvs s "lg @ [IllegalValue k]" lg]
    show ?thesis by simp
  next
    case False
    with kv Cons.IH [OF tl] show ?thesis by (simp split: option.splits)
  qed
qed

lemma load_fields_untouched:
  assumes "\<forall>v. (k, v) \<in> set kvs \<longrightarrow> field_fails env k v"
  shows "lookup (fst (load_fields env kvs s lg)) k = lookup s k"
  using assms
proof (induction kvs arbitrary: s lg)
  case Nil
  show ?case by simp
next
  case (Cons kv kvs)
  obtain k1 v1 where kv: "kv = (k1, v1)" by (cases kv)
  from Cons.prems have tl: "\<forall>v. (k, v) \<in> set kvs \<longrightarrow> field_fails env k v" by simp
  show ?case
  proof (cases "set_field env k1 v1 s")
    case None
    with kv Cons.IH [OF tl] show ?thesis by simp
  next
    case (Some s')
    then have "\<not> field_fails env k1 v1" using set_field_None_iff [of env k1 v1 s] by simp
    with Cons.prems kv have "k \<noteq> k1" by auto
    with Some have "lookup s' k = lookup s k" by (rule set_field_lookup_other)
    with Some kv Cons.IH [OF tl, of s' lg] show ?thesis by simp
  qed
qed

lemma load_fields_stored:
  assumes "distinct (map fst kvs)" and "(k, v) \<in> set kvs" and "\<not> field_fails env k v"
  shows "lookup (fst (load_fields env kvs s lg)) k = stored env k v"
  using assms
proof (induction kvs arbitrary: s lg)
  case Nil
  then show ?case by simp
next
  case (Cons kv kvs)
  obtain k1 v1 where kv: "kv = (k1, v1)" by (cases kv)
  show ?case
  proof (cases "(k, v) = (k1, v1)")
    case True
    with Cons.prems obtain s' where s': "set_field env k1 v1 s = Some s'"
      using set_field_None_iff [of env k1 v1 s] by auto
    from Cons.prems kv True have "\<forall>v'. (k, v') \<in> set kvs \<longrightarrow> field_fails env k v'"
      by (auto simp: image_iff)
    then have "lookup (fst (load_fields env kvs s' lg)) k = lookup s' k"
      by (rule load_fields_untouched)
    with s' True kv show ?thesis by (simp add: set_field_lookup_same)
  next
    case False
    with Cons.prems kv have "(k, v) \<in> set kvs" "distinct (map fst kvs)" by auto
    from Cons.IH [OF this(2) this(1) Cons.prems(3)] kv show ?thesis
      by (simp split: option.splits)
  qed
qed

lemma update_home_lookup:
  assumes "update_home env kvs s = Inr s'" and "k \<noteq> ''home'' \<or> ''home'' \<in> set (map fst kvs)"
  shows "lookup s' k = lookup s k"
  using assms by (auto simp: update_home_def lookup_simps split: if_splits sum.splits)

lemma update_content_root_lookup:
  assumes "update_content_root kvs s = Inr s'"
      and "k \<noteq> ''content_root'' \<or> ''content_root'' \<in> set (map fst kvs)"
  shows "lookup s' k = lookup s k"
  using assms by (auto simp: update_content_root_def lookup_simps split: if_splits json.splits)

lemma filter_single:
  assumes "distinct (map fst xs)" and "(k0, v0) \<in> set xs" and "P k0 v0"
      and "\<forall>(k, v) \<in> set xs. k \<noteq> k0 \<longrightarrow> \<not> P k v"
  shows "map fst (filter (\<lambda>(k, v). P k v) xs) = [k0]"
  using assms
proof (induction xs)
  case Nil
  then show ?case by simp
next
  case (Cons kv xs)
  obtain k v where kv: "kv = (k, v)" by (cases kv)
  show ?case
  proof (cases "k = k0")
    case True
    with Cons.prems kv have v: "v = v0" and nin: "k0 \<notin> fst ` set xs"
      by (auto simp: image_iff)
    have "filter (\<lambda>(k, v). P k v) xs = []"
      unfolding filter_empty_conv
    proof
      fix x assume x: "x \<in> set xs"
      obtain a b where ab: "x = (a, b)" by (cases x)
      with x nin have "a \<noteq> k0" by (auto simp: image_iff)
      with x ab Cons.prems(4) show "\<not> (case x of (k, v) \<Rightarrow> P k v)" by auto
    qed
    with True v kv Cons.prems(3) show ?thesis by simp
  next
    case False
    with Cons.prems kv have "map fst (filter (\<lambda>(k, v). P k v) xs) = [k0]"
      by (intro Cons.IH) auto
    moreover from False Cons.prems(4) kv have "\<not> P k v" by auto
    ultimately show ?thesis using kv by simp
  qed
qed

text \<open>The user settings layer, once the dictionary has been read and \<^verbatim>\<open>user\<close> deleted.\<close>

lemma load_user_settings_items:
  assumes "user_settings_file env = Parsed (JDict kvs)"
      and "truthy du \<longrightarrow> ''user'' \<in> set (map fst kvs)"
  shows "load_user_settings env du s =
           (case update_home env (loaded_items du kvs)
                   (fst (load_fields env (loaded_items du kvs) s [])) of
              Inl e \<Rightarrow> Inl e
            | Inr s2 \<Rightarrow> update_content_root (loaded_items du kvs) s2,
            snd (load_fields env (loaded_items du kvs) s []))"
  using assms
  by (simp add: load_user_settings_def loaded_items_def del_key_def split: prod.splits sum.splits)

text \<open>Only the user settings layer reads the user settings file.\<close>

lemma user_settings_file_frame [simp]:
  "debian_defaults (env\<lparr>user_settings_file := f\<rparr>) = debian_defaults env"
  "get_kalite_home (env\<lparr>user_settings_file := f\<rparr>) = get_kalite_home env"
  "default_settings (env\<lparr>user_settings_file := f\<rparr>) = default_settings env"
  "select_escalation (env\<lparr>user_settings_file := f\<rparr>) = select_escalation env"
  "update_home (env\<lparr>user_settings_file := f\<rparr>) = update_home env"
  by (simp_all add: debian_defaults_def get_kalite_home_def default_settings_def
        select_escalation_def update_home_def fun_eq_iff Let_def
        cong: option.case_cong if_cong)

lemma set_field_frame [simp]:
  "set_field (env\<lparr>user_settings_file := f\<rparr>) k v s = set_field env k v s"
  by (simp add: set_field_def)

lemma load_fields_frame [simp]:
  "load_fields (env\<lparr>user_settings_file := f\<rparr>) kvs s lg = load_fields env kvs s lg"
  by (induction kvs arbitrary: s lg) (auto split: option.splits)

lemma illegal_values_debian_defaults: "illegal_values (snd (debian_defaults env)) = []"
  by (simp add: debian_defaults_def illegal_values_def Let_def split: option.splits)

text \<open>The top-level code in terms of its user settings layer.\<close>

lemma load_module_layers:
  assumes "debian_defaults env = ((du, default_user, default_port), lg1)"
      and "get_kalite_home env default_user = Inr default_home"
  shows "load_module env =
           (map_sum id
              (\<lambda>s. \<lparr>DEFAULT_USER = default_user, DEFAULT_PORT = default_port,
                    DEFAULT_HOME = default_home, escalation = select_escalation env,
                    debian_username = du, settings = s\<rparr>)
              (fst (load_user_settings env du
                      (default_settings env default_user default_port default_home))),
            lg1 @ snd (load_user_settings env du
                         (default_settings env default_user default_port default_home)))"
  using assms by (simp add: load_module_def split: prod.splits)

lemma keys_delete_other:
  "k \<noteq> k0 \<Longrightarrow> k \<in> set (map fst (AList.delete k0 xs)) \<longleftrightarrow> k \<in> set (map fst xs)"
  by (induction xs) auto

lemma loaded_items_delete:
  "loaded_items du (AList.delete k0 kvs) = AList.delete k0 (loaded_items du kvs)"
  by (simp add: loaded_items_def delete_twist)

lemma loaded_items_distinct: "distinct (map fst kvs) \<Longrightarrow> distinct (map fst (loaded_items du kvs))"
  by (simp add: loaded_items_def distinct_delete)

lemma delete_member: "(k, v) \<in> set (AList.delete k0 xs) \<longleftrightarrow> (k, v) \<in> set xs \<and> k \<noteq> k0"
  by (induction xs) auto

lemma loaded_items_member:
  "(k, v) \<in> set (loaded_items du kvs) \<Longrightarrow> (k, v) \<in> set kvs \<and> (truthy du \<longrightarrow> k \<noteq> ''user'')"
  by (auto simp: loaded_items_def delete_member split: if_splits)

text \<open>
  A field that fails its validator changes the outcome of the layer no more than a
  field that is not in the file.
\<close>

lemma user_layer_skip:
  assumes parsed: "user_settings_file env = Parsed (JDict kvs)"
      and dist: "distinct (map fst kvs)"
      and has_user: "truthy du \<longrightarrow> ''user'' \<in> set (map fst kvs)"
      and bad: "(k0, v0) \<in> set (loaded_items du kvs)" "field_fails env k0 v0"
  shows "fst (load_user_settings env du s)
           = fst (load_user_settings
                    (env\<lparr>user_settings_file := Parsed (JDict (AList.delete k0 kvs))\<rparr>) du s)"
proof -
  let ?items = "loaded_items du kvs"
  let ?env = "env\<lparr>user_settings_file := Parsed (JDict (AList.delete k0 kvs))\<rparr>"
  from bad(1) have k0: "truthy du \<longrightarrow> k0 \<noteq> ''user''" by (simp add: loaded_items_member)
  from bad(2) have hk: "k0 \<noteq> ''home''" "k0 \<noteq> ''content_root''" by (simp_all add: field_fails_keys)
  have parsed': "user_settings_file ?env = Parsed (JDict (AList.delete k0 kvs))" by simp
  from has_user k0 have has_user': "truthy du \<longrightarrow> ''user'' \<in> set (map fst (AList.delete k0 kvs))"
    using keys_delete_other [of "''user''" k0 kvs] by auto
  have only: "\<forall>v. (k0, v) \<in> set ?items \<longrightarrow> field_fails env k0 v"
  proof (intro allI impI)
    fix v assume "(k0, v) \<in> set ?items"
    with bad(1) loaded_items_distinct [OF dist, of du] have "v = v0"
      by (meson eq_key_imp_eq_value)
    with bad(2) show "field_fails env k0 v" by simp
  qed
  have lf: "fst (load_fields env ?items s []) = fst (load_fields env (AList.delete k0 ?items) s [])"
    by (rule load_fields_skip [OF only])
  have uh: "update_home env (AList.delete k0 ?items) s1 = update_home env ?items s1" for s1
    using hk(1) keys_delete_other [of "''home''" k0 ?items] by (simp add: update_home_def)
  have uc: "update_content_root (AList.delete k0 ?items) s2 = update_content_root ?items s2" for s2
    using hk(2) keys_delete_other [of "''content_root''" k0 ?items]
    by (simp add: update_content_root_def)
  show ?thesis
    unfolding load_user_settings_items [OF parsed has_user] load_user_settings_items [OF parsed' has_user']
    by (simp add: loaded_items_delete lf uh uc cong: sum.case_cong)
qed

lemma update_fresh: "k \<notin> set (map fst xs) \<Longrightarrow> AList.update k v xs = xs @ [(k, v)]"
  by (induction xs) auto

text \<open>
  With a system username and a settings file that has the key \<^verbatim>\<open>user\<close>, a resolution
  that completes leaves the user at the default user, whatever the file says.
\<close>

lemma load_module_system_user:
  assumes defaults: "debian_defaults env = ((du, default_user, default_port), lg1)"
      and system_user: "truthy du"
      and parsed: "user_settings_file env = Parsed (JDict kvs)"
      and has_user: "''user'' \<in> set (map fst kvs)"
      and completes: "fst (load_module env) = Inr m"
  shows "user (settings m) = default_user"
proof -
  let ?items = "loaded_items du kvs"
  from completes defaults obtain default_home
    where default_home: "get_kalite_home env default_user = Inr default_home"
    by (cases "get_kalite_home env default_user") (simp_all add: load_module_def)
  let ?prior = "default_settings env default_user default_port default_home"
  note layers = load_module_layers [OF defaults default_home]
  from has_user have "truthy du \<longrightarrow> ''user'' \<in> set (map fst kvs)" by simp
  note user_layer = load_user_settings_items [OF parsed this, of ?prior]
  define s1 where "s1 = fst (load_fields env ?items ?prior [])"
  from completes obtain s2 where s2: "update_home env ?items s1 = Inr s2"
    and s3: "update_content_root ?items s2 = Inr (settings m)"
    unfolding layers user_layer s1_def
    by (auto split: sum.splits simp: map_sum_def)
  from system_user have "\<forall>v. (''user'', v) \<in> set ?items \<longrightarrow> field_fails env ''user'' v"
    by (simp add: loaded_items_def delete_member)
  then have "lookup s1 ''user'' = lookup ?prior ''user''"
    unfolding s1_def by (rule load_fields_untouched)
  moreover have "lookup s2 ''user'' = lookup s1 ''user''"
    by (rule update_home_lookup [OF s2]) simp
  moreover have "lookup (settings m) ''user'' = lookup s2 ''user''"
    by (rule update_content_root_lookup [OF s3]) simp
  ultimately show ?thesis by (simp add: lookup_def default_settings_def)
qed

text \<open>What the last two steps of the layer leave in \<^verbatim>\<open>home\<close> and \<^verbatim>\<open>content_root\<close>.\<close>

lemma update_home_absent:
  assumes "update_home env kvs s = Inr s'" and "''home'' \<notin> set (map fst kvs)"
  shows "map_sum id JStr (get_kalite_home env (user s)) = Inr (home s')
         \<and> user s' = user s"
proof (cases "get_kalite_home env (user s)")
  case (Inl e)
  with assms show ?thesis by (simp add: update_home_def)
next
  case (Inr h)
  with assms have "s' = s\<lparr>home := JStr h\<rparr>" by (simp add: update_home_def)
  with Inr show ?thesis by simp
qed

lemma update_content_root_frame:
  assumes "update_content_root kvs s = Inr s'"
  shows "user s' = user s \<and> home s' = home s"
proof (cases "''content_root'' \<in> set (map fst kvs)")
  case True
  with assms show ?thesis by (simp add: update_content_root_def)
next
  case False
  show ?thesis
  proof (cases "home s")
    case (JStr h)
    with assms False have "s' = s\<lparr>content_root := JStr (path_join h ''content'')\<rparr>"
      by (simp add: update_content_root_def)
    then show ?thesis by simp
  qed (use assms False in \<open>simp_all add: update_content_root_def\<close>)
qed

lemma update_content_root_absent:
  assumes "update_content_root kvs s = Inr s'" and "''content_root'' \<notin> set (map fst kvs)"
  shows "\<exists>h. home s' = JStr h \<and> content_root s' = JStr (path_join h ''content'')"
proof (cases "home s")
  case (JStr h)
  with assms have "s' = s\<lparr>content_root := JStr (path_join h ''content'')\<rparr>"
    by (simp add: update_content_root_def)
  with JStr show ?thesis by simp
qed (use assms in \<open>simp_all add: update_content_root_def\<close>)

lemma layer_steps:
  assumes parsed: "user_settings_file env = Parsed (JDict kvs)"
      and defaults: "debian_defaults env = ((du, default_user, default_port), lg1)"
      and default_home: "get_kalite_home env default_user = Inr default_home"
      and has_user: "truthy du \<longrightarrow> ''user'' \<in> set (map fst kvs)"
      and completes: "fst (load_module env) = Inr m"
  obtains s1 s2 where "update_home env (loaded_items du kvs) s1 = Inr s2"
    and "update_content_root (loaded_items du kvs) s2 = Inr (settings m)"
proof -
  let ?items = "loaded_items du kvs"
  let ?prior = "default_settings env default_user default_port default_home"
  note layers = load_module_layers [OF defaults default_home]
  note user_layer = load_user_settings_items [OF parsed has_user, of ?prior]
  from completes obtain s2
    where "update_home env ?items (fst (load_fields env ?items ?prior [])) = Inr s2"
      and "update_content_root ?items s2 = Inr (settings m)"
    unfolding layers user_layer
    by (auto split: sum.splits simp: map_sum_def)
  then show thesis by (rule that)
qed

lemma recomputed_home:
  assumes "user_settings_file env = Parsed (JDict kvs)"
      and "debian_defaults env = ((du, default_user, default_port), lg1)"
      and "get_kalite_home env default_user = Inr default_home"
      and "truthy du \<longrightarrow> ''user'' \<in> set (map fst kvs)"
      and "fst (load_module env) = Inr m"
      and absent: "''home'' \<notin> set (map fst (loaded_items du kvs))"
  shows "map_sum id JStr (get_kalite_home env (user (settings m))) = Inr (home (settings m))"
proof -
  from assms(1-5) obtain s1 s2
    where s2: "update_home env (loaded_items du kvs) s1 = Inr s2"
      and s3: "update_content_root (loaded_items du kvs) s2 = Inr (settings m)"
    by (rule layer_steps)
  from update_home_absent [OF s2 absent] update_content_root_frame [OF s3]
  show ?thesis by simp
qed

lemma recomputed_content_root:
  assumes "user_settings_file env = Parsed (JDict kvs)"
      and "debian_defaults env = ((du, default_user, default_port), lg1)"
      and "get_kalite_home env default_user = Inr default_home"
      and "truthy du \<longrightarrow> ''user'' \<in> set (map fst kvs)"
      and "fst (load_module env) = Inr m"
      and absent: "''content_root'' \<notin> set (map fst (loaded_items du kvs))"
  shows "\<exists>h. home (settings m) = JStr h
            \<and> content_root (settings m) = JStr (path_join h ''content'')"
proof -
  from assms(1-5) obtain s1 s2
    where s3: "update_content_root (loaded_items du kvs) s2 = Inr (settings m)"
    by (rule layer_steps)
  from update_content_root_absent [OF s3 absent] show ?thesis .
qed

text \<open>Items with keys of the user's own are taken over behind those already there.\<close>

lemma load_fields_extra:
  assumes "distinct (map fst kvs)"
      and "\<forall>k \<in> set (map fst kvs). k \<notin> set reserved_keys \<and> k \<notin> set (map fst (extra s))"
  shows "load_fields env kvs s lg = (s\<lparr>extra := extra s @ kvs\<rparr>, lg)"
  using assms
proof (induction kvs arbitrary: s)
  case Nil
  show ?case by simp
next
  case (Cons kv kvs)
  obtain k v where kv: "kv = (k, v)" by (cases kv)
  from Cons.prems kv have k: "k \<notin> set reserved_keys" "k \<notin> set (map fst (extra s))"
    by simp_all
  then have sf: "set_field env k v s = Some (s\<lparr>extra := extra s @ [(k, v)]\<rparr>)"
    by (simp add: set_field_def reserved_keys_def update_fresh)
  have "load_fields env kvs (s\<lparr>extra := extra s @ [(k, v)]\<rparr>) lg
          = (s\<lparr>extra := extra s @ [(k, v)]\<rparr>\<lparr>extra := extra (s\<lparr>extra := extra s @ [(k, v)]\<rparr>) @ kvs\<rparr>, lg)"
    using Cons.prems kv by (intro Cons.IH) auto
  with sf kv show ?case by simp
qed

lemma load_fields_append:
  "load_fields env (xs @ ys) s lg = (case load_fields env xs s lg of (s', lg') \<Rightarrow> load_fields env ys s' lg')"
  by (induction xs arbitrary: s lg) (auto split: option.splits)

lemma load_saved_fields:
  assumes "valid_settings env s" and "extra s0 = []" and "command s0 = find_executable env ''kalite''"
  shows "fst (load_fields env [(''user'', JStr (user s)), (''command'', command_value s),
             (''content_root'', content_root s), (''port'', JInt (port s)), (''home'', home s)] s0 lg)
          = s0\<lparr>user := user s, command := command s, content_root := content_root s,
                port := port s, home := home s\<rparr>"
  using assms
  by (cases "command s") (simp_all add: valid_settings_def set_field_def command_value_def)

lemma load_user_settings_dict:
  assumes "user_settings_file env = Parsed (JDict kvs)" and "\<not> truthy du"
      and "load_fields env kvs s [] = (s1, lg)"
      and "update_home env kvs s1 = Inr s2"
  shows "load_user_settings env du s = (update_content_root kvs s2, lg)"
  using assms by (simp add: load_user_settings_def)

text \<open>Loading the file that \<^verbatim>\<open>json.dump\<close> wrote from valid settings gives them back.\<close>

lemma load_settings_json:
  assumes v: "valid_settings env s" and e: "extra s0 = []"
      and c: "command s0 = find_executable env ''kalite''"
  shows "\<exists>lg. load_user_settings (env\<lparr>user_settings_file := Parsed (settings_json s)\<rparr>) None s0
               = (Inr (s0\<lparr>user := user s, command := command s, content_root := content_root s,
                         port := port s, home := home s, extra := extra s\<rparr>), lg)"
proof -
  let ?items = "[(''user'', JStr (user s)), (''command'', command_value s),
                (''content_root'', content_root s), (''port'', JInt (port s)), (''home'', home s)]"
  let ?loaded = "s0\<lparr>user := user s, command := command s, content_root := content_root s,
                  port := port s, home := home s\<rparr>"
  obtain lg1 where l1: "load_fields env ?items s0 [] = (?loaded, lg1)"
    using load_saved_fields [OF v e c, of "[]"] by (cases "load_fields env ?items s0 []") simp
  from v have wf: "distinct (map fst (extra s))"
    "\<forall>k \<in> set (map fst (extra s)). k \<notin> set reserved_keys \<and> k \<notin> set (map fst (extra ?loaded))"
    using e by (simp_all add: valid_settings_def well_formed_def)
  have l2: "load_fields env (extra s) ?loaded lg1 = (?loaded\<lparr>extra := extra ?loaded @ extra s\<rparr>, lg1)"
    by (rule load_fields_extra [OF wf])
  have l: "load_fields env (?items @ extra s) s0 [] = (?loaded\<lparr>extra := extra s\<rparr>, lg1)"
  proof -
    have "load_fields env (?items @ extra s) s0 [] = load_fields env (extra s) ?loaded lg1"
      by (simp only: load_fields_append l1 prod.case)
    also have "\<dots> = (?loaded\<lparr>extra := extra s\<rparr>, lg1)"
      using l2 e by simp
    finally show ?thesis .
  qed
  have h: "update_home env (?items @ extra s) (?loaded\<lparr>extra := extra s\<rparr>) = Inr (?loaded\<lparr>extra := extra s\<rparr>)"
    by (simp add: update_home_def)
  have r: "update_content_root (?items @ extra s) (?loaded\<lparr>extra := extra s\<rparr>) = Inr (?loaded\<lparr>extra := extra s\<rparr>)"
    by (simp add: update_content_root_def)
  have "load_user_settings (env\<lparr>user_settings_file := Parsed (settings_json s)\<rparr>) None s0
          = (Inr (?loaded\<lparr>extra := extra s\<rparr>), lg1)"
  proof -
    let ?env = "env\<lparr>user_settings_file := Parsed (settings_json s)\<rparr>"
    have f: "user_settings_file ?env = Parsed (JDict (?items @ extra s))"
      by (simp add: settings_json_def)
    have t: "\<not> truthy None" by (simp add: truthy_def)
    have l': "load_fields ?env (?items @ extra s) s0 [] = (?loaded\<lparr>extra := extra s\<rparr>, lg1)"
      using l by (simp only: load_fields_frame)
    have h': "update_home ?env (?items @ extra s) (?loaded\<lparr>extra := extra s\<rparr>)
                = Inr (?loaded\<lparr>extra := extra s\<rparr>)"
      by (simp add: update_home_def)
    show ?thesis
      using load_user_settings_dict [OF f t l' h'] r by (simp only:)
  qed
  then show ?thesis by blast
qed

subsection \<open>The streaming executor\<close>

text \<open>
  Claim C1. A command whose child writes N newline-terminated lines and exits with
  code C should give N line tuples and then one final tuple with the captured error
  stream and the exit code C. On \<open>plain_env\<close>, \<^verbatim>\<open>kalite start\<close> writes two lines and exits
  with status 3: the two line tuples and the error text come as claimed, but the exit
  code of the final tuple is \<^verbatim>\<open>None\<close>, not 3. The generator never calls \<^verbatim>\<open>wait()\<close> or
  \<^verbatim>\<open>poll()\<close>, so \<^verbatim>\<open>p.returncode\<close> is still what \<^verbatim>\<open>Popen\<close> set it to.
\<close>

theorem stream_kalite_command_returncode_absent:
  "spawn plain_env [''/usr/bin/kalite'', ''start''] False ''/home/alice/.kalite''
     = Some \<lparr>proc_stdout = ''Starting\<newline>Running\<newline>'', proc_stderr = ''warn'', proc_exit = 3\<rparr>
   \<and> fst (stream_kalite_command plain_env plain_state
            [JStr ''/usr/bin/kalite'', JStr ''start''] False)
     = Inr [(Some ''Starting\<newline>'', None, None), (Some ''Running\<newline>'', None, None),
            (None, Some ''warn'', None)]"
  by (simp add: stream_kalite_command_def Popen_def plain_env_def plain_state_def
      start_process_def readline_def stream_lines.simps)

subsection \<open>The command builder\<close>

text \<open>
  Claim C2, as stated: with the managed binary not resolved, \<^verbatim>\<open>get_command\<close> fails
  with a configuration error instead of returning an argument vector. It does not: on
  the state of a machine without the binary, \<^verbatim>\<open>get_command('start')\<close> returns the
  vector \<^verbatim>\<open>[None, 'start']\<close>.
\<close>

theorem get_command_absent_binary_counterexample:
  "fst (load_module no_binary_env) = Inr no_binary_state
   \<and> command (settings no_binary_state) = None
   \<and> get_command no_binary_state ''start'' = Inr [JNull, JStr ''start'']"
  by (simp add: load_no_binary)
     (simp add: no_binary_state_def plain_state_def get_command_def command_value_def split_on_def)

text \<open>
  Claim C2, amended: with the managed binary not resolved, \<^verbatim>\<open>get_command\<close> never
  fails; it returns the argument vector that starts with the absent value \<^verbatim>\<open>None\<close>
  and goes on with the pieces of the argument string between single spaces: at least
  one piece, no piece holds a space, and the pieces joined with single spaces are the
  argument string. (These three facts leave one list of pieces only.)
\<close>

theorem get_command_absent_binary:
  "command (settings m) = None \<Longrightarrow>
   \<exists>tokens. get_command m kalite_command = Inr (JNull # map JStr tokens)
            \<and> tokens \<noteq> []
            \<and> list_all (\<lambda>t. CHR '' '' \<notin> set t) tokens
            \<and> join '' '' tokens = kalite_command"
proof -
  assume "command (settings m) = None"
  then have "get_command m kalite_command
               = Inr (JNull # map JStr (split_on CHR '' '' kalite_command))"
    by (simp add: get_command_def command_value_def)
  moreover have "split_on CHR '' '' kalite_command \<noteq> []"
    by (rule split_on_nonempty)
  moreover have "list_all (\<lambda>t. CHR '' '' \<notin> set t) (split_on CHR '' '' kalite_command)"
    by (rule split_on_no_sep)
  moreover have "join '' '' (split_on CHR '' '' kalite_command) = kalite_command"
    by (rule join_split_on)
  ultimately show ?thesis by blast
qed

theorem get_command_absent_binary_witness:
  "command (settings no_binary_state) = None
   \<and> (\<exists>tokens. get_command no_binary_state ''restart  now'' = Inr (JNull # map JStr tokens)
               \<and> tokens \<noteq> []
               \<and> list_all (\<lambda>t. CHR '' '' \<notin> set t) tokens
               \<and> join '' '' tokens = ''restart  now'')
   \<and> get_command no_binary_state ''restart  now''
       = Inr [JNull, JStr ''restart'', JStr [], JStr ''now'']"
proof -
  have h: "command (settings no_binary_state) = None"
    by (simp add: no_binary_state_def plain_state_def)
  have e: "get_command no_binary_state ''restart  now''
             = Inr [JNull, JStr ''restart'', JStr [], JStr ''now'']"
    by (simp add: no_binary_state_def plain_state_def get_command_def command_value_def
        split_on_def)
  show ?thesis by (rule conjI [OF h conjI [OF get_command_absent_binary [OF h] e]])
qed

subsection \<open>Configuration resolution\<close>

text \<open>
  Claim C3. With a valid username in the system username file, configuration
  resolution should complete with that user for every user settings file, also one
  without the key \<^verbatim>\<open>user\<close>. On \<open>debian_env\<close> the username file names the valid account
  \<^verbatim>\<open>kalite\<close> and the settings file is \<^verbatim>\<open>{"port": 8009}\<close>: \<^verbatim>\<open>del loaded_settings['user']\<close>
  raises \<^verbatim>\<open>KeyError\<close>, which \<^verbatim>\<open>except ValueError\<close> does not catch, and the import of the
  module ends with it.
\<close>

theorem load_module_missing_user_key:
  "validate_user debian_env (JStr ''kalite'') = Some ''kalite''
   \<and> fst (load_module debian_env) = Inl KeyError"
  by (simp add: load_module_def debian_env_def plain_env_def debian_defaults_def
      get_kalite_home_def path_join_def load_user_settings_def default_settings_def
      select_escalation_def truthy_def del_key_def split_on_def Let_def)

text \<open>
  Claim C5, as stated: for every user settings file in which exactly one field fails
  its validator, resolution logs exactly one warning for that field. On \<open>ghost_env\<close>
  the system username file names the valid account \<^verbatim>\<open>kalite\<close> and the settings file is
  \<^verbatim>\<open>{"user": "ghost", "port": 8009}\<close>: of its two fields only \<^verbatim>\<open>user\<close> fails its validator.
  Line 98 deletes it before the loop, so it is never validated: resolution completes
  and logs nothing at all.
\<close>

theorem single_bad_field_counterexample:
  "validate_user ghost_env (JStr ''kalite'') = Some ''kalite''
   \<and> field_fails ghost_env ''user'' (JStr ''ghost'')
   \<and> \<not> field_fails ghost_env ''port'' (JInt 8009)
   \<and> load_module ghost_env = (Inr ghost_state, [])"
  by (simp add: field_fails_def load_module_def ghost_env_def ghost_state_def plain_env_def
      debian_defaults_def get_kalite_home_def path_join_def load_user_settings_def
      default_settings_def select_escalation_def truthy_def del_key_def split_on_def Let_def
      set_field_def update_home_def update_content_root_def)

text \<open>
  Claim C5, amended. Let the user settings file hold a dictionary, and let exactly one
  of the fields that the resolver validates, \<open>k0\<close>, fail its validator; these are the
  fields of the file, without \<^verbatim>\<open>user\<close> when a system username was read (\<open>du\<close> is
  \<^verbatim>\<open>debian_username\<close>), in which case the file has a \<^verbatim>\<open>user\<close> for line 98 to delete. Then
  \<^item> resolution ends as it does for the same file without \<open>k0\<close>, with the same settings
    or the same exception: the bad field aborts nothing;
  \<^item> exactly one message \<^verbatim>\<open>Illegal value\<close> is logged, and it names \<open>k0\<close>;
  \<^item> when resolution completes, \<open>k0\<close> has the value of the layer before, every other
    loaded field has the value its validator returned (the value of the file when it
    has no validator), every key that is not in the file, apart from \<^verbatim>\<open>home\<close> and
    \<^verbatim>\<open>content_root\<close>, has the value of the layer before, a \<^verbatim>\<open>home\<close> that is not in the
    file is the home of the resolved user, and a \<^verbatim>\<open>content_root\<close> that is not in the
    file is the directory \<^verbatim>\<open>content\<close> of the resolved home.
\<close>

theorem single_bad_field:
  assumes parsed: "user_settings_file env = Parsed (JDict kvs)"
      and dist: "distinct (map fst kvs)"
      and defaults: "debian_defaults env = ((du, default_user, default_port), lg1)"
      and default_home: "get_kalite_home env default_user = Inr default_home"
      and has_user: "truthy du \<longrightarrow> ''user'' \<in> set (map fst kvs)"
      and bad: "(k0, v0) \<in> set (loaded_items du kvs)" "field_fails env k0 v0"
      and good: "\<forall>(k, v) \<in> set (loaded_items du kvs). k \<noteq> k0 \<longrightarrow> \<not> field_fails env k v"
  shows "fst (load_module env)
           = fst (load_module (env\<lparr>user_settings_file := Parsed (JDict (AList.delete k0 kvs))\<rparr>))
         \<and> illegal_values (snd (load_module env)) = [k0]
         \<and> (\<forall>m. fst (load_module env) = Inr m \<longrightarrow>
               lookup (settings m) k0
                 = lookup (default_settings env default_user default_port default_home) k0
               \<and> (\<forall>(k, v) \<in> set (loaded_items du kvs).
                     k \<noteq> k0 \<longrightarrow> lookup (settings m) k = stored env k v)
               \<and> (\<forall>k. k \<notin> set (map fst (loaded_items du kvs)) \<longrightarrow>
                        k \<noteq> ''home'' \<longrightarrow> k \<noteq> ''content_root'' \<longrightarrow>
                        lookup (settings m) k
                          = lookup (default_settings env default_user default_port default_home) k)
               \<and> (''home'' \<notin> set (map fst (loaded_items du kvs)) \<longrightarrow>
                    map_sum id JStr (get_kalite_home env (user (settings m)))
                      = Inr (home (settings m)))
               \<and> (''content_root'' \<notin> set (map fst (loaded_items du kvs)) \<longrightarrow>
                    (\<exists>h. home (settings m) = JStr h
                         \<and> content_root (settings m) = JStr (path_join h ''content''))))"
proof (intro conjI allI impI)
  let ?items = "loaded_items du kvs"
  let ?prior = "default_settings env default_user default_port default_home"
  let ?env = "env\<lparr>user_settings_file := Parsed (JDict (AList.delete k0 kvs))\<rparr>"
  note layers = load_module_layers [OF defaults default_home]
  have layers': "load_module ?env =
           (map_sum id
              (\<lambda>s. \<lparr>DEFAULT_USER = default_user, DEFAULT_PORT = default_port,
                    DEFAULT_HOME = default_home, escalation = select_escalation env,
                    debian_username = du, settings = s\<rparr>)
              (fst (load_user_settings ?env du ?prior)),
            lg1 @ snd (load_user_settings ?env du ?prior))"
    using load_module_layers [of ?env du default_user default_port lg1 default_home]
      defaults default_home by simp
  have idist: "distinct (map fst ?items)" by (rule loaded_items_distinct [OF dist])
  have only: "\<forall>v. (k0, v) \<in> set ?items \<longrightarrow> field_fails env k0 v"
  proof (intro allI impI)
    fix v assume "(k0, v) \<in> set ?items"
    with bad(1) idist have "v = v0" by (meson eq_key_imp_eq_value)
    with bad(2) show "field_fails env k0 v" by simp
  qed
  from bad(2) have hk: "k0 \<noteq> ''home''" "k0 \<noteq> ''content_root''"
    by (simp_all add: field_fails_keys)
  note user_layer = load_user_settings_items [OF parsed has_user, of ?prior]

  show "fst (load_module env) = fst (load_module ?env)"
    unfolding layers layers'
    using user_layer_skip [OF parsed dist has_user bad, of ?prior] by simp

  have "illegal_values lg1 = []"
    using illegal_values_debian_defaults [of env] defaults by simp
  moreover have "map fst (filter (\<lambda>(k, v). field_fails env k v) ?items) = [k0]"
    by (rule filter_single [OF idist bad good])
  ultimately show "illegal_values (snd (load_module env)) = [k0]"
    unfolding layers user_layer by (simp add: load_fields_log illegal_values_def)

  fix m assume m: "fst (load_module env) = Inr m"
  define s1 where "s1 = fst (load_fields env ?items ?prior [])"
  from m obtain s2 where s2: "update_home env ?items s1 = Inr s2"
    and s3: "update_content_root ?items s2 = Inr (settings m)"
    unfolding layers user_layer s1_def
    by (auto split: sum.splits simp: map_sum_def)
  have final: "lookup (settings m) k = lookup s1 k"
    if "k \<noteq> ''home'' \<or> ''home'' \<in> set (map fst ?items)"
      and "k \<noteq> ''content_root'' \<or> ''content_root'' \<in> set (map fst ?items)" for k
    using update_home_lookup [OF s2 that(1)] update_content_root_lookup [OF s3 that(2)]
    by simp

  show "lookup (settings m) k0 = lookup ?prior k0"
    using final [of k0] hk load_fields_untouched [OF only, of ?prior "[]"]
    by (simp add: s1_def)

  show "\<forall>(k, v) \<in> set ?items. k \<noteq> k0 \<longrightarrow> lookup (settings m) k = stored env k v"
  proof (intro ballI, clarify)
    fix k v assume kv: "(k, v) \<in> set ?items" and ne: "k \<noteq> k0"
    with good have ok: "\<not> field_fails env k v" by auto
    from kv have mem: "k \<in> set (map fst ?items)" by (force simp: image_iff)
    have "k \<noteq> ''home'' \<or> ''home'' \<in> set (map fst ?items)"
      and "k \<noteq> ''content_root'' \<or> ''content_root'' \<in> set (map fst ?items)"
      using mem by blast+
    then have "lookup (settings m) k = lookup s1 k" by (rule final)
    also have "\<dots> = stored env k v"
      unfolding s1_def by (rule load_fields_stored [OF idist kv ok])
    finally show "lookup (settings m) k = stored env k v" .
  qed

  fix k assume k: "k \<notin> set (map fst ?items)" "k \<noteq> ''home''" "k \<noteq> ''content_root''"
  then have "\<forall>v. (k, v) \<in> set ?items \<longrightarrow> field_fails env k v" by (force simp: image_iff)
  then have "lookup s1 k = lookup ?prior k"
    unfolding s1_def by (rule load_fields_untouched)
  with final [of k] k show "lookup (settings m) k = lookup ?prior k" by simp
next
  fix m assume m: "fst (load_module env) = Inr m"
    and absent: "''home'' \<notin> set (map fst (loaded_items du kvs))"
  show "map_sum id JStr (get_kalite_home env (user (settings m))) = Inr (home (settings m))"
    by (rule recomputed_home [OF parsed defaults default_home has_user m absent])
next
  fix m assume m: "fst (load_module env) = Inr m"
    and absent: "''content_root'' \<notin> set (map fst (loaded_items du kvs))"
  show "\<exists>h. home (settings m) = JStr h
            \<and> content_root (settings m) = JStr (path_join h ''content'')"
    by (rule recomputed_content_root [OF parsed defaults default_home has_user m absent])
qed

theorem single_bad_field_witness:
  "user_settings_file bad_port_env = Parsed (JDict bad_port_items)
   \<and> debian_defaults bad_port_env = ((Some ''kalite'', ''kalite'', 8008), [])
   \<and> (''port'', JInt 0) \<in> set (loaded_items (Some ''kalite'') bad_port_items)
   \<and> field_fails bad_port_env ''port'' (JInt 0)
   \<and> fst (load_module bad_port_env)
       = fst (load_module (bad_port_env\<lparr>user_settings_file :=
                Parsed (JDict (AList.delete ''port'' bad_port_items))\<rparr>))
   \<and> illegal_values (snd (load_module bad_port_env)) = [''port'']"
proof -
  have 1: "user_settings_file bad_port_env = Parsed (JDict bad_port_items)"
    by (simp add: bad_port_env_def)
  have 2: "distinct (map fst bad_port_items)"
    by (simp add: bad_port_items_def)
  have 3: "debian_defaults bad_port_env = ((Some ''kalite'', ''kalite'', 8008), [])"
    by (simp add: bad_port_env_def plain_env_def debian_defaults_def split_on_def Let_def)
  have 4: "get_kalite_home bad_port_env ''kalite'' = Inr ''/var/kalite/.kalite''"
    by (simp add: bad_port_env_def plain_env_def get_kalite_home_def path_join_def)
  have 5: "truthy (Some ''kalite'') \<longrightarrow> ''user'' \<in> set (map fst bad_port_items)"
    by (simp add: bad_port_items_def)
  have 6: "(''port'', JInt 0) \<in> set (loaded_items (Some ''kalite'') bad_port_items)"
    by (simp add: loaded_items_def truthy_def bad_port_items_def)
  have 7: "field_fails bad_port_env ''port'' (JInt 0)"
    by (simp add: field_fails_def bad_port_env_def plain_env_def)
  have 8: "\<forall>(k, v) \<in> set (loaded_items (Some ''kalite'') bad_port_items).
             k \<noteq> ''port'' \<longrightarrow> \<not> field_fails bad_port_env k v"
    by (simp add: loaded_items_def truthy_def bad_port_items_def field_fails_def)
  from single_bad_field [OF 1 2 3 4 5 6 7 8]
  have "fst (load_module bad_port_env)
          = fst (load_module (bad_port_env\<lparr>user_settings_file :=
                   Parsed (JDict (AList.delete ''port'' bad_port_items))\<rparr>))"
    and "illegal_values (snd (load_module bad_port_env)) = [''port'']"
    by blast+
  with 1 3 6 7 show ?thesis by (intro conjI)
qed

subsection \<open>Settings persistence\<close>

text \<open>
  Claim C8. Saving valid settings and resolving the configuration again, with no
  system convention file present, gives the same settings back. The user settings
  file read is the one \<^verbatim>\<open>save_settings\<close> leaves; it can be written, and the invoking
  user has an account, as every import of the module needs.
\<close>

theorem save_load_roundtrip:
  assumes "valid_settings env (settings m)"
      and "username_file env = None" and "options_file env = None"
      and "getpwnam env (getuser env) = Some pw_dir"
      and "settings_file_writable env"
  shows "\<exists>m'. fst (load_module (env\<lparr>user_settings_file := written (snd (save_settings env m))\<rparr>))
                = Inr m'
              \<and> settings m' = settings m"
proof -
  let ?s = "settings m"
  let ?env = "env\<lparr>user_settings_file := Parsed (settings_json ?s)\<rparr>"
  let ?home = "path_join pw_dir ''.kalite''"
  let ?init = "default_settings ?env (getuser env) 8008 ?home"
  have w: "written (snd (save_settings env m)) = Parsed (settings_json ?s)"
    using assms(5) by (simp add: save_settings_def split: prod.splits)
  have d: "debian_defaults ?env = ((None, getuser env, 8008), [])"
    using assms(2) by (simp add: debian_defaults_def)
  have g: "get_kalite_home ?env (getuser env) = Inr ?home"
    using assms(4) by (simp add: get_kalite_home_def)
  have "extra ?init = []" "command ?init = find_executable env ''kalite''"
    by (simp_all add: default_settings_def)
  from load_settings_json [OF assms(1) this]
  obtain lg where u: "load_user_settings ?env None ?init
     = (Inr (?init\<lparr>user := user ?s, command := command ?s, content_root := content_root ?s,
                port := port ?s, home := home ?s, extra := extra ?s\<rparr>), lg)"
    by blast
  have eq: "?init\<lparr>user := user ?s, command := command ?s, content_root := content_root ?s,
                port := port ?s, home := home ?s, extra := extra ?s\<rparr> = ?s"
    by (simp add: default_settings_def)
  show ?thesis
    unfolding w load_module_def d using g u eq by simp
qed

theorem save_load_roundtrip_witness:
  "username_file plain_env = None \<and> options_file plain_env = None
   \<and> getpwnam plain_env (getuser plain_env) = Some ''/home/alice''
   \<and> settings_file_writable plain_env
   \<and> (\<exists>m'. fst (load_module (plain_env\<lparr>user_settings_file :=
                      written (snd (save_settings plain_env themed_state))\<rparr>))
                = Inr m'
              \<and> settings m' = settings themed_state)"
proof -
  have 1: "valid_settings plain_env (settings themed_state)"
    by (simp add: valid_settings_def well_formed_def reserved_keys_def themed_state_def
        plain_state_def plain_env_def)
  have 2: "username_file plain_env = None" and 3: "options_file plain_env = None"
    and 4: "getpwnam plain_env (getuser plain_env) = Some ''/home/alice''"
    and 5: "settings_file_writable plain_env"
    by (simp_all add: plain_env_def)
  from 2 3 4 5 save_load_roundtrip [OF 1 2 3 4 5] show ?thesis by (intro conjI)
qed

text \<open>
  Claim C4. No operation should raise when a system convention file is absent. On
  \<open>plain_env\<close>, which has none of them, the module is imported without an error; with
  the port then set to 8009, \<^verbatim>\<open>save_settings\<close> ends with the \<^verbatim>\<open>IOError\<close> of
  \<^verbatim>\<open>open(DEBIAN_OPTIONS_FILE, 'r')\<close>: the read at line 309 is not guarded by
  \<^verbatim>\<open>os.path.isfile\<close> as the read at line 62 is.
\<close>

theorem save_settings_missing_options_file:
  "options_file plain_env = None
   \<and> load_module plain_env = (Inr plain_state, [])
   \<and> fst (save_settings plain_env (plain_state\<lparr>settings := (settings plain_state)\<lparr>port := 8009\<rparr>\<rparr>))
     = Inl IOError"
  by (simp add: load_plain)
     (simp add: save_settings_def save_debian_settings_def bash_commands_def
        options_commands_def plain_env_def plain_state_def)

text \<open>
  Claim C6. When the resolved user differs from the default user, \<^verbatim>\<open>save_settings\<close>
  starts no process at all; and when the user settings file can be written, it
  writes the settings to it and returns normally after the one log message.
\<close>

theorem save_settings_non_default_user:
  assumes "DEFAULT_USER m \<noteq> user (settings m)"
  shows "popen_calls (snd (save_settings env m)) = []
         \<and> (settings_file_writable env \<longrightarrow>
              save_settings env m
                = (Inr (), \<lparr>written = Parsed (settings_json (settings m)), popen_calls = [],
                            logged = [NotSavingDebian (user (settings m))]\<rparr>))"
  using assms by (simp add: save_settings_def save_debian_settings_def)

theorem save_settings_non_default_user_witness:
  "DEFAULT_USER (plain_state\<lparr>settings := (settings plain_state)\<lparr>user := ''kalite''\<rparr>\<rparr>) = ''alice''
   \<and> settings_file_writable plain_env
   \<and> save_settings plain_env (plain_state\<lparr>settings := (settings plain_state)\<lparr>user := ''kalite''\<rparr>\<rparr>)
     = (Inr (),
        \<lparr>written = Parsed (JDict [(''user'', JStr ''kalite''),
                                  (''command'', JStr ''/usr/bin/kalite''),
                                  (''content_root'', JStr ''/home/alice/.kalite/content''),
                                  (''port'', JInt 8008),
                                  (''home'', JStr ''/home/alice/.kalite'')]),
         popen_calls = [], logged = [NotSavingDebian ''kalite'']\<rparr>)"
proof -
  let ?m = "plain_state\<lparr>settings := (settings plain_state)\<lparr>user := ''kalite''\<rparr>\<rparr>"
  have u: "DEFAULT_USER ?m \<noteq> user (settings ?m)"
    by (simp add: plain_state_def)
  have w: "settings_file_writable plain_env"
    by (simp add: plain_env_def)
  from save_settings_non_default_user [OF u, of plain_env] w
  have "save_settings plain_env ?m
          = (Inr (), \<lparr>written = Parsed (settings_json (settings ?m)), popen_calls = [],
                      logged = [NotSavingDebian (user (settings ?m))]\<rparr>)"
    by blast
  with w show ?thesis
    by (simp add: plain_state_def settings_json_def command_value_def)
qed

text \<open>
  Claim C9. With the resolved user the default user and a port P that is not the
  default port, the new content of the options file should hold \<^verbatim>\<open>--port=P\<close> for every
  current content. With the current content \<^verbatim>\<open>--port 9000\<close> (the option given without the
  equals sign) and P = 8009, nothing is replaced, and nothing is appended either,
  because the text holds \<^verbatim>\<open>--port\<close>: the content written back is \<^verbatim>\<open>--port 9000\<close>.
\<close>

theorem save_settings_port_not_written:
  "new_server_options 8009 ''--port 9000\<newline>'' = ''--port 9000''
   \<and> \<not> contains ''--port=8009'' (new_server_options 8009 ''--port 9000\<newline>'')
   \<and> popen_calls (snd (save_settings (plain_env\<lparr>options_file := Some ''--port 9000\<newline>''\<rparr>)
                        (plain_state\<lparr>settings := (settings plain_state)\<lparr>port := 8009\<rparr>\<rparr>)))
     = [[''pkexec'', ''bash'', ''-c'', echo_to ''--port 9000'' ''/etc/ka-lite/server_options'']]"
proof -
  have n: "new_server_options 8009 ''--port 9000\<newline>'' = ''--port 9000''"
    by (simp add: new_server_options_def port_option_def str_int_def str_nat.simps
        digit_char_def strip_def isspace_def isdigit_def)
  have c: "\<not> contains ''--port=8009'' ''--port 9000''"
    by simp
  have s: "popen_calls (snd (save_settings (plain_env\<lparr>options_file := Some ''--port 9000\<newline>''\<rparr>)
                        (plain_state\<lparr>settings := (settings plain_state)\<lparr>port := 8009\<rparr>\<rparr>)))
     = [[''pkexec'', ''bash'', ''-c'', echo_to ''--port 9000'' ''/etc/ka-lite/server_options'']]"
    by (simp add: save_settings_def save_debian_settings_def bash_commands_def
        options_commands_def home_commands_def n plain_env_def plain_state_def
        encode_ascii_def echo_to_def run_kalite_command_def sudo_def SUDO_COMMAND_def
        Popen_def communicate_def ok_process_def)
  from n c s show ?thesis by simp
qed

text \<open>
  Claim C10. When the user settings file can be written, the resolved user is the
  default user and neither the port nor the home differs from its default,
  \<^verbatim>\<open>save_settings\<close> still hands exactly one escalated command to the operating system:
  \<^verbatim>\<open>SUDO_COMMAND bash -c ''\<close>, with the empty string as the shell script.
\<close>

theorem save_settings_empty_script:
  "settings_file_writable env \<Longrightarrow>
   DEFAULT_USER m = user (settings m) \<Longrightarrow> port (settings m) = DEFAULT_PORT m \<Longrightarrow>
   home (settings m) = JStr (DEFAULT_HOME m) \<Longrightarrow>
   popen_calls (snd (save_settings env m)) = [[SUDO_COMMAND m, ''bash'', ''-c'', []]]"
  by (simp add: save_settings_def save_debian_settings_def bash_commands_def
      options_commands_def home_commands_def encode_ascii_def run_kalite_command_def
      sudo_def Popen_def split: option.splits sum.splits prod.splits)

theorem save_settings_empty_script_witness:
  "settings_file_writable plain_env
   \<and> DEFAULT_USER plain_state = user (settings plain_state)
   \<and> port (settings plain_state) = DEFAULT_PORT plain_state
   \<and> home (settings plain_state) = JStr (DEFAULT_HOME plain_state)
   \<and> popen_calls (snd (save_settings plain_env plain_state)) = [[''pkexec'', ''bash'', ''-c'', []]]"
proof -
  have w: "settings_file_writable plain_env"
    by (simp add: plain_env_def)
  have u: "DEFAULT_USER plain_state = user (settings plain_state)"
    and p: "port (settings plain_state) = DEFAULT_PORT plain_state"
    and h: "home (settings plain_state) = JStr (DEFAULT_HOME plain_state)"
    by (simp_all add: plain_state_def)
  have "SUDO_COMMAND plain_state = ''pkexec''"
    by (simp add: SUDO_COMMAND_def plain_state_def)
  with save_settings_empty_script [OF w u p h] w u p h show ?thesis by simp
qed

subsection \<open>Status text mining\<close>

text \<open>
  Claim C7. The status line \<^verbatim>\<open>Server running at http://127.0.0.1:8008/\<close> with exit
  code 0 yields exactly the one match \<^verbatim>\<open>http://127.0.0.1:8008/\<close>, and for every text a
  nonzero exit code yields the empty sequence.
\<close>

theorem get_urls_from_status_spec:
  "get_urls_from_status ''Server running at http://127.0.0.1:8008/'' 0 = [''http://127.0.0.1:8008/'']
   \<and> (\<forall>msg rc. rc \<noteq> 0 \<longrightarrow> get_urls_from_status msg rc = [])"
  by (simp add: get_urls_from_status_def split_ws_def isspace_def)

theorem get_urls_from_status_spec_witness:
  "(1::int) \<noteq> 0 \<and> get_urls_from_status ''http://a/ http://b/'' 1 = []
   \<and> get_urls_from_status ''http://a/ http://b/'' 0 = [''http://a/'', ''http://b/'']"
  using get_urls_from_status_spec
  by (simp add: get_urls_from_status_def split_ws_def isspace_def)



end
